theory Spec2Isabelle
  imports Main
begin

section \<open>The SNGAN generator graph builder (generator.py)\<close>

text \<open>
  \<^verbatim>\<open>generator.py\<close> builds a TensorFlow computation graph: every function takes
  symbolic tensors and returns a symbolic tensor. A symbolic tensor is modelled as the
  node that produces it: its operation, the tensors it reads and its static shape,
  so a returned tensor is the whole graph that was built for it.
  Every tensor of the model has a static rank; a dimension may be unknown (\<open>None\<close>),
  as \<^verbatim>\<open>x.get_shape().as_list()\<close> reports it. Element types and operation names are
  not modelled.
\<close>

subsection \<open>Tensors and errors\<close>

type_synonym dim = "nat option"

type_synonym shape = "dim list"

type_synonym var_name = "string list"

datatype op =
    Placeholder string
  | Variable var_name
  | Tile "int list"
  | BatchToSpace "(int \<times> int) list" int
  | ResizeNearestNeighbor "int list"
  | Reshape "int list"
  | Relu
  | Tanh
  | Add
  | Linear
  | Conv2d int int int int
  | ConditionalBatchNorm
  | BatchNorm

datatype tensor = Tensor (op_of: op) (inputs: "tensor list") (get_shape: shape)

text \<open>
  An exception is a value. \<open>Framework\<close> errors are raised inside a call into the
  tensor framework or the ops library (shape inference, attribute checks, the variable
  store). \<open>Builtin\<close> errors are raised by the Python interpreter while it runs a
  statement of \<^verbatim>\<open>generator.py\<close> itself. The module defines no exception class.
\<close>

datatype fw_error = ShapeMismatch | InvalidAttr | VariableStore

datatype py_error = ValueError | TypeError

datatype error = Framework fw_error | Builtin py_error

subsection \<open>Framework operations used by the upsampling helpers\<close>

text \<open>
  \<^verbatim>\<open>tf.tile(x, multiples)\<close>: one multiple per axis, none negative; every known
  dimension is multiplied.
\<close>

definition tf_tile :: "tensor \<Rightarrow> int list \<Rightarrow> error + tensor" where
  "tf_tile x multiples =
     (if length multiples \<noteq> length (get_shape x) then Inl (Framework ShapeMismatch)
      else if \<exists>m \<in> set multiples. m < 0 then Inl (Framework ShapeMismatch)
      else Inr (Tensor (Tile multiples) [x]
             (map2 (\<lambda>d m. map_option (\<lambda>k. k * nat m) d) (get_shape x) multiples)))"

text \<open>
  \<^verbatim>\<open>tf.batch_to_space(input, crops, block_size)\<close>: the block size is an attribute
  that must be at least 2; the input is 4D, the crops are two non-negative pairs, a
  known batch size is divisible by the squared block size, and each spatial size is
  multiplied by the block size and then cropped.
\<close>

definition cropped :: "dim \<Rightarrow> int \<Rightarrow> int \<Rightarrow> int \<Rightarrow> error + dim" where
  "cropped d block_size lo hi =
     (case d of
        None \<Rightarrow> Inr None
      | Some k \<Rightarrow>
          (if int k * block_size - lo - hi < 0 then Inl (Framework ShapeMismatch)
           else Inr (Some (nat (int k * block_size - lo - hi)))))"

definition batch_blocks :: "dim \<Rightarrow> int \<Rightarrow> error + dim" where
  "batch_blocks d block_size =
     (case d of
        None \<Rightarrow> Inr None
      | Some k \<Rightarrow>
          (if int k mod (block_size * block_size) \<noteq> 0 then Inl (Framework ShapeMismatch)
           else Inr (Some (nat (int k div (block_size * block_size))))))"

definition tf_batch_to_space :: "tensor \<Rightarrow> (int \<times> int) list \<Rightarrow> int \<Rightarrow> error + tensor" where
  "tf_batch_to_space x crops block_size =
     (if block_size < 2 then Inl (Framework InvalidAttr)
      else
        (case (get_shape x, crops) of
           ([b, h, w, c], [(ct, cb), (cl, cr)]) \<Rightarrow>
             (if ct < 0 \<or> cb < 0 \<or> cl < 0 \<or> cr < 0 then Inl (Framework ShapeMismatch)
              else
                (case batch_blocks b block_size of
                   Inl e \<Rightarrow> Inl e
                 | Inr b' \<Rightarrow>
                     (case cropped h block_size ct cb of
                        Inl e \<Rightarrow> Inl e
                      | Inr h' \<Rightarrow>
                          (case cropped w block_size cl cr of
                             Inl e \<Rightarrow> Inl e
                           | Inr w' \<Rightarrow>
                               Inr (Tensor (BatchToSpace crops block_size) [x]
                                      [b', h', w', c])))))
         | _ \<Rightarrow> Inl (Framework ShapeMismatch)))"

text \<open>
  \<^verbatim>\<open>tf.image.resize_nearest_neighbor(images, size)\<close>: the images are 4D, the size
  is a pair of non-negative integers that become the static height and width.
\<close>

definition tf_image_resize_nearest_neighbor :: "tensor \<Rightarrow> int list \<Rightarrow> error + tensor" where
  "tf_image_resize_nearest_neighbor x out_size =
     (case (get_shape x, out_size) of
        ([b, h, w, c], [oh, ow]) \<Rightarrow>
          (if oh < 0 \<or> ow < 0 then Inl (Framework ShapeMismatch)
           else Inr (Tensor (ResizeNearestNeighbor out_size) [x]
                  [b, Some (nat oh), Some (nat ow), c]))
      | _ \<Rightarrow> Inl (Framework ShapeMismatch))"

subsection \<open>upscale, usample\_tpu, usample\<close>

text \<open>
  \<^verbatim>\<open>
  def upscale(x, n):
    if n == 1:
      return x
    return tf.batch_to_space(tf.tile(x, [n**2, 1, 1, 1]), [[0, 0], [0, 0]], n)
  \<close>
\<close>

definition upscale :: "tensor \<Rightarrow> int \<Rightarrow> error + tensor" where
  "upscale x n =
     (if n = 1 then Inr x
      else
        (case tf_tile x [n ^ 2, 1, 1, 1] of
           Inl e \<Rightarrow> Inl e
         | Inr t \<Rightarrow> tf_batch_to_space t [(0, 0), (0, 0)] n))"

text \<open>
  \<^verbatim>\<open>
  def usample_tpu(x):
    x = upscale(x, 2)
    return x
  \<close>
\<close>

definition usample_tpu :: "tensor \<Rightarrow> error + tensor" where
  "usample_tpu x = upscale x 2"

text \<open>
  \<^verbatim>\<open>
  def usample(x):
    _, nh, nw, nx = x.get_shape().as_list()
    x = tf.image.resize_nearest_neighbor(x, [nh * 2, nw * 2])
    return x
  \<close>
  Unpacking a shape that does not have four entries raises Python's \<open>ValueError\<close>;
  \<^verbatim>\<open>nh * 2\<close> on an unknown dimension is \<^verbatim>\<open>None * 2\<close>, Python's \<open>TypeError\<close>.
\<close>

definition py_mul :: "dim \<Rightarrow> int \<Rightarrow> error + int" where
  "py_mul d k = (case d of None \<Rightarrow> Inl (Builtin TypeError) | Some m \<Rightarrow> Inr (int m * k))"

definition usample :: "tensor \<Rightarrow> error + tensor" where
  "usample x =
     (case get_shape x of
        [_, nh, nw, nx] \<Rightarrow>
          (case py_mul nh 2 of
             Inl e \<Rightarrow> Inl e
           | Inr h2 \<Rightarrow>
               (case py_mul nw 2 of
                  Inl e \<Rightarrow> Inl e
                | Inr w2 \<Rightarrow> tf_image_resize_nearest_neighbor x [h2, w2]))
      | _ \<Rightarrow> Inl (Builtin ValueError))"

subsection \<open>Elementwise and reshaping framework operations\<close>

definition tf_nn_relu :: "tensor \<Rightarrow> tensor" where
  "tf_nn_relu x = Tensor Relu [x] (get_shape x)"

definition tf_nn_tanh :: "tensor \<Rightarrow> tensor" where
  "tf_nn_tanh x = Tensor Tanh [x] (get_shape x)"

text \<open>
  \<^verbatim>\<open>x_0 + x\<close> is the framework's broadcasting addition: the shapes are aligned
  at their last axis, and two dimensions are compatible when they are equal or one of
  them is 1.
\<close>

definition broadcast_dim :: "dim \<Rightarrow> dim \<Rightarrow> error + dim" where
  "broadcast_dim d e =
     (case (d, e) of
        (Some a, Some b) \<Rightarrow>
          (if a = b then Inr (Some a)
           else if a = 1 then Inr (Some b)
           else if b = 1 then Inr (Some a)
           else Inl (Framework ShapeMismatch))
      | (None, Some b) \<Rightarrow> Inr (if b = 1 then None else Some b)
      | (Some a, None) \<Rightarrow> Inr (if a = 1 then None else Some a)
      | (None, None) \<Rightarrow> Inr None)"

fun sequence_sum :: "('e + 'a) list \<Rightarrow> 'e + 'a list" where
  "sequence_sum [] = Inr []"
| "sequence_sum (Inl e # _) = Inl e"
| "sequence_sum (Inr a # rs) =
     (case sequence_sum rs of Inl e \<Rightarrow> Inl e | Inr as \<Rightarrow> Inr (a # as))"

definition broadcast_shapes :: "shape \<Rightarrow> shape \<Rightarrow> error + shape" where
  "broadcast_shapes s t =
     (let n = max (length s) (length t);
          s' = replicate (n - length s) (Some 1) @ s;
          t' = replicate (n - length t) (Some 1) @ t
      in sequence_sum (map2 broadcast_dim s' t'))"

definition tf_add :: "tensor \<Rightarrow> tensor \<Rightarrow> error + tensor" where
  "tf_add x y =
     (case broadcast_shapes (get_shape x) (get_shape y) of
        Inl e \<Rightarrow> Inl e
      | Inr s \<Rightarrow> Inr (Tensor Add [x, y] s))"

text \<open>
  \<^verbatim>\<open>tf.reshape(tensor, shape)\<close>: at most one entry of the target is \<open>-1\<close>, no entry
  is smaller. When every input dimension is known the number of elements is kept, and
  the \<open>-1\<close> entry is inferred from it; otherwise the \<open>-1\<close> entry stays unknown.
\<close>

definition reshaped :: "int list \<Rightarrow> dim \<Rightarrow> shape" where
  "reshaped target inferred = map (\<lambda>d. if d = -1 then inferred else Some (nat d)) target"

definition tf_reshape :: "tensor \<Rightarrow> int list \<Rightarrow> error + tensor" where
  "tf_reshape x target =
     (if (\<exists>d \<in> set target. d < -1) \<or> 1 < count_list target (-1)
      then Inl (Framework ShapeMismatch)
      else
        (let p = prod_list (map nat (filter (\<lambda>d. d \<noteq> -1) target)) in
         case those (get_shape x) of
           None \<Rightarrow> Inr (Tensor (Reshape target) [x] (reshaped target None))
         | Some ds \<Rightarrow>
             (if -1 \<in> set target
              then
                (if p = 0 \<or> prod_list ds mod p \<noteq> 0 then Inl (Framework ShapeMismatch)
                 else Inr (Tensor (Reshape target) [x]
                        (reshaped target (Some (prod_list ds div p)))))
              else
                (if prod_list ds \<noteq> p then Inl (Framework ShapeMismatch)
                 else Inr (Tensor (Reshape target) [x] (reshaped target None))))))"

subsection \<open>Variable scopes and the variable store\<close>

text \<open>
  Learned parameters live in the framework's variable store, a map from a variable's
  full name (the names of the enclosing variable scopes, outermost first, and its own)
  to its shape. A function that may create or look up variables is a builder: it reads
  the current variable scope and passes the store on. An exception leaves the store as
  it was when it was raised.
\<close>

datatype reuse_flag = ReuseNone | ReuseTrue | AUTO_REUSE

record var_scope =
  scope_path :: "string list"
  reuse :: reuse_flag

type_synonym var_store = "var_name \<rightharpoonup> nat list"

type_synonym 'a builder = "var_scope \<Rightarrow> var_store \<Rightarrow> (error + 'a) \<times> var_store"

definition return_b :: "'a \<Rightarrow> 'a builder" where
  "return_b a = (\<lambda>vs st. (Inr a, st))"

definition raise_b :: "error \<Rightarrow> 'a builder" where
  "raise_b e = (\<lambda>vs st. (Inl e, st))"

definition lift :: "error + 'a \<Rightarrow> 'a builder" where
  "lift r = (\<lambda>vs st. (r, st))"

definition then_b :: "'a builder \<Rightarrow> ('a \<Rightarrow> 'b builder) \<Rightarrow> 'b builder" where
  "then_b m f =
     (\<lambda>vs st. case m vs st of
        (Inl e, st') \<Rightarrow> (Inl e, st')
      | (Inr a, st') \<Rightarrow> f a vs st')"

text \<open>
  \<^verbatim>\<open>with tf.variable_scope(name, reuse=r):\<close> runs its body one scope deeper. A reuse
  flag of \<open>True\<close> or \<open>AUTO_REUSE\<close> replaces the enclosing one; without one the
  enclosing flag is inherited. The scope is left again when the body ends.
\<close>

definition variable_scope :: "string \<Rightarrow> reuse_flag \<Rightarrow> 'a builder \<Rightarrow> 'a builder" where
  "variable_scope name r body =
     (\<lambda>vs. body \<lparr>scope_path = scope_path vs @ [name],
                  reuse = (if r = ReuseNone then reuse vs else r)\<rparr>)"

text \<open>
  \<^verbatim>\<open>tf.get_variable(name, shape)\<close>: without reuse the variable must be new; with
  \<open>reuse=True\<close> it must exist; with \<open>AUTO_REUSE\<close> it is created when it does not
  exist and returned otherwise. An existing variable must have the requested shape.
\<close>

definition variable :: "var_name \<Rightarrow> nat list \<Rightarrow> tensor" where
  "variable full shp = Tensor (Variable full) [] (map Some shp)"

definition get_variable :: "string \<Rightarrow> nat list \<Rightarrow> tensor builder" where
  "get_variable name shp =
     (\<lambda>vs st.
        let full = scope_path vs @ [name] in
        case st full of
          None \<Rightarrow>
            (if reuse vs = ReuseTrue then (Inl (Framework VariableStore), st)
             else (Inr (variable full shp), st(full \<mapsto> shp)))
        | Some shp' \<Rightarrow>
            (if reuse vs = ReuseNone \<or> shp' \<noteq> shp then (Inl (Framework VariableStore), st)
             else (Inr (variable full shp), st)))"

subsection \<open>The ops library\<close>

text \<open>
  Modelled from the spec: the module \<^verbatim>\<open>ops\<close> (\<^verbatim>\<open>ops.linear\<close>, \<^verbatim>\<open>ops.conv2d\<close>,
  \<^verbatim>\<open>ops.ConditionalBatchNorm\<close>, \<^verbatim>\<open>ops.BatchNorm\<close>) is not among the sources. The
  spec names its four primitives (linear projection, 2D convolution, conditional and
  plain batch normalization) and says that their learned parameters are managed by the
  framework's variable store. Each primitive is one node of the graph that reads its
  input and its parameters; the parameters are variables of the scope the call names.
  Only what graph construction observes is modelled: the static shape of the result and
  the errors of shape inference and of the variable store.
\<close>

text \<open>
  Modelled from the spec: \<^verbatim>\<open>ops.linear(x, output_size, scope)\<close>, a linear projection
  of a batch of vectors \<open>[batch, k]\<close> to \<open>[batch, output_size]\<close> with a weight
  matrix and a bias.
\<close>

definition ops_linear :: "tensor \<Rightarrow> int \<Rightarrow> string \<Rightarrow> tensor builder" where
  "ops_linear x output_size scope =
     (case get_shape x of
        [b, Some k] \<Rightarrow>
          (if output_size < 0 then raise_b (Framework ShapeMismatch)
           else
             variable_scope scope ReuseNone
               (then_b (get_variable ''Matrix'' [k, nat output_size]) (\<lambda>matrix.
                then_b (get_variable ''bias'' [nat output_size]) (\<lambda>bias.
                return_b (Tensor Linear [x, matrix, bias] [b, Some (nat output_size)])))))
      | _ \<Rightarrow> raise_b (Framework ShapeMismatch))"

text \<open>
  Modelled from the spec: \<^verbatim>\<open>ops.conv2d(x, output_dim, k_h, k_w, d_h, d_w, name)\<close>, a
  2D convolution of a B01C image batch with a \<open>k_h \<times> k_w\<close> kernel and strides
  \<open>d_h\<close>, \<open>d_w\<close>. The result has \<open>output_dim\<close> channels, and its height and width
  are those of the input divided by the strides and rounded up, so that a stride of 1
  keeps them (the sizes the source notes after each block, \<^verbatim>\<open>8 * 8\<close> to
  \<^verbatim>\<open>128 * 128\<close>, are those of the upsampling alone).
\<close>

definition strided :: "dim \<Rightarrow> int \<Rightarrow> dim" where
  "strided d s = map_option (\<lambda>k. (k + nat s - 1) div nat s) d"

definition ops_conv2d ::
  "tensor \<Rightarrow> int \<Rightarrow> int \<Rightarrow> int \<Rightarrow> int \<Rightarrow> int \<Rightarrow> string \<Rightarrow> tensor builder" where
  "ops_conv2d x output_dim k_h k_w d_h d_w name =
     (case get_shape x of
        [b, h, w, Some c] \<Rightarrow>
          (if output_dim < 0 \<or> k_h < 1 \<or> k_w < 1 \<or> d_h < 1 \<or> d_w < 1
           then raise_b (Framework InvalidAttr)
           else
             variable_scope name ReuseNone
               (then_b (get_variable ''w'' [nat k_h, nat k_w, c, nat output_dim]) (\<lambda>w'.
                then_b (get_variable ''biases'' [nat output_dim]) (\<lambda>biases.
                return_b (Tensor (Conv2d k_h k_w d_h d_w) [x, w', biases]
                            [b, strided h d_h, strided w d_w, Some (nat output_dim)])))))
      | _ \<Rightarrow> raise_b (Framework ShapeMismatch))"

text \<open>
  Modelled from the spec: \<^verbatim>\<open>ops.ConditionalBatchNorm(num_classes, name)\<close> is a
  callable object; \<^verbatim>\<open>bn(x, labels)\<close> normalizes a B01C image batch with a scale and a
  shift that depend on the class label: one row of \<open>gamma\<close> and of \<open>beta\<close> per
  class, selected by \<open>labels\<close>, a vector with one label per image. The result has the
  shape of \<open>x\<close>.
\<close>

definition labels_fit :: "shape \<Rightarrow> dim \<Rightarrow> bool" where
  "labels_fit ls b =
     (case ls of
        [n] \<Rightarrow> (case (n, b) of (Some n', Some b') \<Rightarrow> n' = b' | _ \<Rightarrow> True)
      | _ \<Rightarrow> False)"

definition ops_ConditionalBatchNorm :: "int \<Rightarrow> string \<Rightarrow> tensor \<Rightarrow> tensor \<Rightarrow> tensor builder" where
  "ops_ConditionalBatchNorm num_categories name x labels =
     (case get_shape x of
        [b, h, w, Some c] \<Rightarrow>
          (if num_categories < 0 then raise_b (Framework InvalidAttr)
           else if \<not> labels_fit (get_shape labels) b then raise_b (Framework ShapeMismatch)
           else
             variable_scope name ReuseNone
               (then_b (get_variable ''gamma'' [nat num_categories, c]) (\<lambda>gamma.
                then_b (get_variable ''beta'' [nat num_categories, c]) (\<lambda>beta.
                return_b (Tensor ConditionalBatchNorm [x, labels, gamma, beta]
                            (get_shape x))))))
      | _ \<Rightarrow> raise_b (Framework ShapeMismatch))"

text \<open>
  Modelled from the spec: \<^verbatim>\<open>ops.BatchNorm(name)\<close> is a callable object; \<^verbatim>\<open>bn(x)\<close>
  normalizes a B01C image batch with one learned scale and shift per channel.
\<close>

definition ops_BatchNorm :: "string \<Rightarrow> tensor \<Rightarrow> tensor builder" where
  "ops_BatchNorm name x =
     (case get_shape x of
        [b, h, w, Some c] \<Rightarrow>
          variable_scope name ReuseNone
            (then_b (get_variable ''gamma'' [c]) (\<lambda>gamma.
             then_b (get_variable ''beta'' [c]) (\<lambda>beta.
             return_b (Tensor BatchNorm [x, gamma, beta] (get_shape x)))))
      | _ \<Rightarrow> raise_b (Framework ShapeMismatch))"

subsection \<open>block\<close>

text \<open>
  \<^verbatim>\<open>
  def block(x, labels, out_channels, num_classes, name):
    with tf.variable_scope(name):
      bn0 = ops.ConditionalBatchNorm(num_classes, name='cbn_0')
      bn1 = ops.ConditionalBatchNorm(num_classes, name='cbn_1')
      x_0 = x
      x = tf.nn.relu(bn0(x, labels))
      x = usample(x)
      x = ops.conv2d(x, out_channels, 3, 3, 1, 1, name='conv1')
      x = tf.nn.relu(bn1(x, labels))
      x = ops.conv2d(x, out_channels, 3, 3, 1, 1, name='conv2')

      x_0 = usample(x_0)
      x_0 = ops.conv2d(x_0, out_channels, 1, 1, 1, 1, name='conv3')

      return x_0 + x
  \<close>
\<close>

definition block :: "tensor \<Rightarrow> tensor \<Rightarrow> int \<Rightarrow> int \<Rightarrow> string \<Rightarrow> tensor builder" where
  "block x labels out_channels num_classes name =
     variable_scope name ReuseNone
       (let bn0 = ops_ConditionalBatchNorm num_classes ''cbn_0'';
            bn1 = ops_ConditionalBatchNorm num_classes ''cbn_1'';
            x_0 = x
        in
        then_b (bn0 x labels) (\<lambda>n0.
        then_b (lift (usample (tf_nn_relu n0))) (\<lambda>x.
        then_b (ops_conv2d x out_channels 3 3 1 1 ''conv1'') (\<lambda>x.
        then_b (bn1 x labels) (\<lambda>n1.
        then_b (ops_conv2d (tf_nn_relu n1) out_channels 3 3 1 1 ''conv2'') (\<lambda>x.
        then_b (lift (usample x_0)) (\<lambda>x_0.
        then_b (ops_conv2d x_0 out_channels 1 1 1 1 ''conv3'') (\<lambda>x_0.
        lift (tf_add x_0 x)))))))))"

subsection \<open>generator\<close>

text \<open>
  \<^verbatim>\<open>
  def generator(zs, target_class, gf_dim, num_classes, scope='Generator'):
    with tf.variable_scope(scope, reuse=tf.AUTO_REUSE):
      act0 = ops.linear(zs, gf_dim * 16 * 4 * 4, 'g_h0')
      act0 = tf.reshape(act0, [-1, 4, 4, gf_dim * 16])
      act1 = block(act0, target_class, gf_dim * 16, num_classes, 'g_block1')
      act2 = block(act1, target_class, gf_dim * 8, num_classes, 'g_block2')
      act3 = block(act2, target_class, gf_dim * 4, num_classes, 'g_block3')
      act4 = block(act3, target_class, gf_dim * 2, num_classes, 'g_block4')
      act5 = block(act4, target_class, gf_dim, num_classes, 'g_block5')
      bn = ops.BatchNorm(name='g_bn')
      act5 = tf.nn.relu(bn(act5))
      act6 = ops.conv2d(act5, 3, 3, 3, 1, 1, name='g_conv_last')
      out = tf.nn.tanh(act6)
      return out
  \<close>
\<close>

definition generator :: "tensor \<Rightarrow> tensor \<Rightarrow> int \<Rightarrow> int \<Rightarrow> string \<Rightarrow> tensor builder" where
  "generator zs target_class gf_dim num_classes scope =
     variable_scope scope AUTO_REUSE
       (then_b (ops_linear zs (gf_dim * 16 * 4 * 4) ''g_h0'') (\<lambda>act0.
        then_b (lift (tf_reshape act0 [-1, 4, 4, gf_dim * 16])) (\<lambda>act0.
        then_b (block act0 target_class (gf_dim * 16) num_classes ''g_block1'') (\<lambda>act1.
        then_b (block act1 target_class (gf_dim * 8) num_classes ''g_block2'') (\<lambda>act2.
        then_b (block act2 target_class (gf_dim * 4) num_classes ''g_block3'') (\<lambda>act3.
        then_b (block act3 target_class (gf_dim * 2) num_classes ''g_block4'') (\<lambda>act4.
        then_b (block act4 target_class gf_dim num_classes ''g_block5'') (\<lambda>act5.
        let bn = ops_BatchNorm ''g_bn'' in
        then_b (bn act5) (\<lambda>n.
        then_b (ops_conv2d (tf_nn_relu n) 3 3 3 1 1 ''g_conv_last'') (\<lambda>act6.
        return_b (tf_nn_tanh act6)))))))))))"

subsection \<open>Running the upsampling operations\<close>

text \<open>
  What a graph computes is needed only to compare the two upsampling helpers. A value
  is a dense array: its dimensions and its elements in row-major order. The three
  operations of \<open>upscale\<close> and \<open>usample\<close> move elements and are given in full;
  every other operation (its arithmetic is the framework's and the ops library's,
  on floating point numbers) is a parameter \<open>sem\<close> of the evaluation.
\<close>

record 'a ndarray =
  dims :: "nat list"
  elems :: "'a list"

datatype run_error = InvalidArgument

definition at4 :: "nat \<Rightarrow> nat \<Rightarrow> nat \<Rightarrow> 'a list \<Rightarrow> nat \<Rightarrow> nat \<Rightarrow> nat \<Rightarrow> nat \<Rightarrow> 'a" where
  "at4 h w c xs b y x ch = xs ! (((b * h + y) * w + x) * c + ch)"

definition tabulate4 ::
  "nat \<Rightarrow> nat \<Rightarrow> nat \<Rightarrow> nat \<Rightarrow> (nat \<Rightarrow> nat \<Rightarrow> nat \<Rightarrow> nat \<Rightarrow> 'a) \<Rightarrow> 'a list" where
  "tabulate4 n h w c f =
     concat (map (\<lambda>b. concat (map (\<lambda>y. concat (map (\<lambda>x. map (f b y x) [0..<c]) [0..<w]))
       [0..<h])) [0..<n])"

text \<open>
  Tiling repeats the array \<open>m\<close> times along each axis, innermost axes first: every
  slice along the first axis is tiled along the remaining axes, and the sequence of
  tiled slices is repeated.
\<close>

fun tile_elems :: "nat list \<Rightarrow> nat list \<Rightarrow> 'a list \<Rightarrow> 'a list" where
  "tile_elems (d # ds) (m # ms) xs =
     concat (replicate m (concat (map
       (\<lambda>i. tile_elems ds ms (take (prod_list ds) (drop (i * prod_list ds) xs))) [0..<d])))"
| "tile_elems _ _ xs = xs"

definition tile_run :: "int list \<Rightarrow> 'a ndarray \<Rightarrow> run_error + 'a ndarray" where
  "tile_run multiples v =
     (if length multiples \<noteq> length (dims v) \<or> (\<exists>m \<in> set multiples. m < 0)
      then Inl InvalidArgument
      else Inr \<lparr>dims = map2 (\<lambda>d m. d * nat m) (dims v) multiples,
                elems = tile_elems (dims v) (map nat multiples) (elems v)\<rparr>)"

text \<open>
  Batch-to-space with block size \<open>k\<close>: the batch index is \<open>(i * k + j) * n' + b\<close>, and
  the image at that index supplies the pixels of output image \<open>b\<close> at row offset
  \<open>i\<close> and column offset \<open>j\<close> inside every \<open>k \<times> k\<close> block; the crops are cut
  off afterwards.
\<close>

definition batch_to_space_run ::
  "(int \<times> int) list \<Rightarrow> int \<Rightarrow> 'a ndarray \<Rightarrow> run_error + 'a ndarray" where
  "batch_to_space_run crops block_size v =
     (case (dims v, crops) of
        ([n, h, w, c], [(ct, cb), (cl, cr)]) \<Rightarrow>
          (let k = nat block_size; n' = n div (k * k) in
           if block_size < 2 \<or> n mod (k * k) \<noteq> 0 \<or> ct < 0 \<or> cb < 0 \<or> cl < 0 \<or> cr < 0 \<or>
              int (h * k) < ct + cb \<or> int (w * k) < cl + cr
           then Inl InvalidArgument
           else Inr \<lparr>dims = [n', h * k - nat ct - nat cb, w * k - nat cl - nat cr, c],
                     elems = tabulate4 n' (h * k - nat ct - nat cb) (w * k - nat cl - nat cr) c
                       (\<lambda>b y x. at4 h w c (elems v)
                          ((((y + nat ct) mod k) * k + (x + nat cl) mod k) * n' + b)
                          ((y + nat ct) div k) ((x + nat cl) div k))\<rparr>)
      | _ \<Rightarrow> Inl InvalidArgument)"

text \<open>
  Nearest-neighbour resizing (corners not aligned): output row \<open>y\<close> reads input row
  \<open>min (floor (y * h / oh)) (h - 1)\<close>, and columns likewise. The kernel rejects an
  empty image, an image without channels and an empty output size.
\<close>

definition resize_nearest_neighbor_run :: "int list \<Rightarrow> 'a ndarray \<Rightarrow> run_error + 'a ndarray" where
  "resize_nearest_neighbor_run out_size v =
     (case (dims v, out_size) of
        ([n, h, w, c], [oh, ow]) \<Rightarrow>
          (if oh \<le> 0 \<or> ow \<le> 0 \<or> c = 0 \<or> h = 0 \<or> w = 0 then Inl InvalidArgument
           else Inr \<lparr>dims = [n, nat oh, nat ow, c],
                     elems = tabulate4 n (nat oh) (nat ow) c
                       (\<lambda>b y x. at4 h w c (elems v) b
                          (min (y * h div nat oh) (h - 1)) (min (x * w div nat ow) (w - 1)))\<rparr>)
      | _ \<Rightarrow> Inl InvalidArgument)"

fun run ::
  "(op \<Rightarrow> 'a ndarray list \<Rightarrow> run_error + 'a ndarray) \<Rightarrow> tensor \<Rightarrow> run_error + 'a ndarray" where
  "run sem (Tensor f xs s) =
     (case sequence_sum (map (run sem) xs) of
        Inl e \<Rightarrow> Inl e
      | Inr vs \<Rightarrow>
          (case (f, vs) of
             (Tile multiples, [v]) \<Rightarrow> tile_run multiples v
           | (BatchToSpace crops block_size, [v]) \<Rightarrow> batch_to_space_run crops block_size v
           | (ResizeNearestNeighbor out_size, [v]) \<Rightarrow> resize_nearest_neighbor_run out_size v
           | _ \<Rightarrow> sem f vs))"

subsection \<open>Reading a graph\<close>

text \<open>
  The vocabulary in which the properties describe a graph: \<open>arg t\<close> is the tensor an
  operation is applied to (its first input), and each predicate says that \<open>t\<close> is one
  named operation applied to \<open>x\<close>.
\<close>

definition arg :: "tensor \<Rightarrow> tensor" where
  "arg t = (case inputs t of x # _ \<Rightarrow> x | [] \<Rightarrow> t)"

definition is_variable :: "tensor \<Rightarrow> bool" where
  "is_variable t \<longleftrightarrow> (case op_of t of Variable _ \<Rightarrow> inputs t = [] | _ \<Rightarrow> False)"

definition projected :: "tensor \<Rightarrow> tensor \<Rightarrow> bool" where
  "projected t x \<longleftrightarrow>
     op_of t = Linear \<and>
     (case inputs t of [y, m, b] \<Rightarrow> y = x \<and> is_variable m \<and> is_variable b | _ \<Rightarrow> False)"

definition reshaped_from :: "tensor \<Rightarrow> tensor \<Rightarrow> bool" where
  "reshaped_from t x \<longleftrightarrow> (case op_of t of Reshape _ \<Rightarrow> inputs t = [x] | _ \<Rightarrow> False)"

definition convolved :: "int \<Rightarrow> int \<Rightarrow> tensor \<Rightarrow> tensor \<Rightarrow> bool" where
  "convolved k_h k_w t x \<longleftrightarrow>
     op_of t = Conv2d k_h k_w 1 1 \<and>
     (case inputs t of [y, w, b] \<Rightarrow> y = x \<and> is_variable w \<and> is_variable b | _ \<Rightarrow> False)"

definition batch_normalized :: "tensor \<Rightarrow> tensor \<Rightarrow> bool" where
  "batch_normalized t x \<longleftrightarrow>
     op_of t = BatchNorm \<and>
     (case inputs t of [y, g, b] \<Rightarrow> y = x \<and> is_variable g \<and> is_variable b | _ \<Rightarrow> False)"

text \<open>\<open>u\<close> is \<open>x\<close> upsampled by 2: a nearest-neighbour resize to twice the height and width.\<close>

definition doubled :: "tensor \<Rightarrow> tensor \<Rightarrow> bool" where
  "doubled u x \<longleftrightarrow>
     inputs u = [x] \<and>
     (case (op_of u, get_shape x, get_shape u) of
        (ResizeNearestNeighbor _, [b, Some h, Some w, c], [b', Some h', Some w', c']) \<Rightarrow>
          b' = b \<and> h' = 2 * h \<and> w' = 2 * w \<and> c' = c
      | _ \<Rightarrow> False)"

text \<open>
  \<open>t\<close> is a residual upsampling block over \<open>x\<close>: the sum of a shortcut path (\<open>x\<close>
  upsampled by 2, then a 1x1 convolution) and a main path (\<open>x\<close> normalized, rectified,
  upsampled by 2, convolved 3x3, normalized, rectified, convolved 3x3).
\<close>

definition residual_upsampling_block :: "tensor \<Rightarrow> tensor \<Rightarrow> bool" where
  "residual_upsampling_block t x \<longleftrightarrow>
     op_of t = Add \<and>
     (case inputs t of
        [shortcut, main] \<Rightarrow>
          (let u0 = arg shortcut;
               r1 = arg main; n1 = arg r1; c1 = arg n1; u = arg c1; r0 = arg u; n0 = arg r0
           in convolved 1 1 shortcut u0 \<and> doubled u0 x \<and>
              convolved 3 3 main r1 \<and> r1 = tf_nn_relu n1 \<and>
              op_of n1 = ConditionalBatchNorm \<and>
              convolved 3 3 c1 u \<and> doubled u r0 \<and> r0 = tf_nn_relu n0 \<and>
              op_of n0 = ConditionalBatchNorm \<and> arg n0 = x)
      | _ \<Rightarrow> False)"

text \<open>
  \<open>t\<close> is the conditional batch normalization of \<open>x\<close> on \<open>labels\<close> in the variable
  scope \<open>q\<close>: it reads \<open>x\<close>, the labels, and a scale \<open>gamma\<close> and a shift \<open>beta\<close>
  that hold one row per class.
\<close>

definition conditional_batch_norm ::
  "string list \<Rightarrow> nat \<Rightarrow> tensor \<Rightarrow> tensor \<Rightarrow> tensor \<Rightarrow> bool" where
  "conditional_batch_norm q nc t x labels \<longleftrightarrow>
     op_of t = ConditionalBatchNorm \<and>
     (case get_shape x of
        [b, h, w, Some c] \<Rightarrow>
          inputs t = [x, labels, variable (q @ [''gamma'']) [nc, c],
                      variable (q @ [''beta'']) [nc, c]]
      | _ \<Rightarrow> False)"

text \<open>
  \<open>t\<close> is a block over \<open>x\<close> in scope \<open>q\<close> whose two normalizations are conditional on
  \<open>labels\<close>: \<open>cbn_0\<close> normalizes \<open>x\<close> before the first convolution, \<open>cbn_1\<close>
  normalizes the first convolution's result before the second.
\<close>

definition conditional_block ::
  "string list \<Rightarrow> nat \<Rightarrow> tensor \<Rightarrow> tensor \<Rightarrow> tensor \<Rightarrow> bool" where
  "conditional_block q nc t x labels \<longleftrightarrow>
     (case inputs t of
        [shortcut, main] \<Rightarrow>
          (let n1 = arg (arg main); c1 = arg n1; n0 = arg (arg (arg c1))
           in conditional_batch_norm (q @ [''cbn_0'']) nc n0 x labels \<and>
              arg (arg c1) = tf_nn_relu n0 \<and> convolved 3 3 c1 (arg c1) \<and>
              conditional_batch_norm (q @ [''cbn_1'']) nc n1 c1 labels \<and>
              convolved 3 3 main (tf_nn_relu n1))
      | _ \<Rightarrow> False)"






definition from_framework :: "error \<Rightarrow> bool" where
  "from_framework e \<longleftrightarrow> (case e of Framework _ \<Rightarrow> True | Builtin _ \<Rightarrow> False)"

text \<open>No variable of the store has a name under the scope \<open>q\<close>.\<close>

definition fresh_under :: "string list \<Rightarrow> var_store \<Rightarrow> bool" where
  "fresh_under q st \<longleftrightarrow> (\<forall>n. st (q @ n) = None)"

subsection \<open>The graphs that block and generator build\<close>

text \<open>
  The graph of a block over a tensor \<open>x\<close> of shape \<open>[b, h, w, c]\<close>, written out as a
  term; \<open>q\<close> is the block's variable scope, \<open>oc\<close> the number of output channels and
  \<open>nc\<close> the number of classes. Lemma \<open>block_outcome\<close> shows that \<open>block\<close> returns it.
\<close>

definition block_graph ::
  "string list \<Rightarrow> tensor \<Rightarrow> tensor \<Rightarrow> nat \<Rightarrow> nat \<Rightarrow> dim \<Rightarrow> nat \<Rightarrow> nat \<Rightarrow> nat \<Rightarrow> tensor" where
  "block_graph q x labels oc nc b h w c =
     (let s = [b, Some (2 * h), Some (2 * w), Some oc];
          n0 = Tensor ConditionalBatchNorm
                 [x, labels, variable (q @ [''cbn_0'', ''gamma'']) [nc, c],
                  variable (q @ [''cbn_0'', ''beta'']) [nc, c]]
                 [b, Some h, Some w, Some c];
          u = Tensor (ResizeNearestNeighbor [2 * int h, 2 * int w]) [tf_nn_relu n0]
                [b, Some (2 * h), Some (2 * w), Some c];
          c1 = Tensor (Conv2d 3 3 1 1)
                 [u, variable (q @ [''conv1'', ''w'']) [3, 3, c, oc],
                  variable (q @ [''conv1'', ''biases'']) [oc]] s;
          n1 = Tensor ConditionalBatchNorm
                 [c1, labels, variable (q @ [''cbn_1'', ''gamma'']) [nc, oc],
                  variable (q @ [''cbn_1'', ''beta'']) [nc, oc]] s;
          x' = Tensor (Conv2d 3 3 1 1)
                 [tf_nn_relu n1, variable (q @ [''conv2'', ''w'']) [3, 3, oc, oc],
                  variable (q @ [''conv2'', ''biases'']) [oc]] s;
          u0 = Tensor (ResizeNearestNeighbor [2 * int h, 2 * int w]) [x]
                 [b, Some (2 * h), Some (2 * w), Some c];
          x_0 = Tensor (Conv2d 1 1 1 1)
                  [u0, variable (q @ [''conv3'', ''w'']) [1, 1, c, oc],
                   variable (q @ [''conv3'', ''biases'']) [oc]] s
      in Tensor Add [x_0, x'] s)"

text \<open>
  The graph of the generator over noise \<open>zs\<close> of shape \<open>[b, k]\<close>, written out as a
  term; \<open>q\<close> is the generator's variable scope. Lemma \<open>generator_outcome\<close> shows that
  \<open>generator\<close> returns it.
\<close>

definition latent :: "string list \<Rightarrow> tensor \<Rightarrow> int \<Rightarrow> dim \<Rightarrow> nat \<Rightarrow> tensor" where
  "latent q zs gf_dim b k =
     (let g = nat gf_dim;
          h0 = Tensor Linear
                 [zs, variable (q @ [''g_h0'', ''Matrix'']) [k, 256 * g],
                  variable (q @ [''g_h0'', ''bias'']) [256 * g]]
                 [b, Some (256 * g)]
      in Tensor (Reshape [-1, 4, 4, gf_dim * 16]) [h0] [b, Some 4, Some 4, Some (16 * g)])"

definition generator_graph ::
  "string list \<Rightarrow> tensor \<Rightarrow> tensor \<Rightarrow> int \<Rightarrow> nat \<Rightarrow> dim \<Rightarrow> nat \<Rightarrow> tensor" where
  "generator_graph q zs target_class gf_dim nc b k =
     (let g = nat gf_dim;
          act0 = latent q zs gf_dim b k;
          act1 = block_graph (q @ [''g_block1'']) act0 target_class (16 * g) nc b 4 4 (16 * g);
          act2 = block_graph (q @ [''g_block2'']) act1 target_class (8 * g) nc b 8 8 (16 * g);
          act3 = block_graph (q @ [''g_block3'']) act2 target_class (4 * g) nc b 16 16 (8 * g);
          act4 = block_graph (q @ [''g_block4'']) act3 target_class (2 * g) nc b 32 32 (4 * g);
          act5 = block_graph (q @ [''g_block5'']) act4 target_class g nc b 64 64 (2 * g);
          n = Tensor BatchNorm
                [act5, variable (q @ [''g_bn'', ''gamma'']) [g],
                 variable (q @ [''g_bn'', ''beta'']) [g]]
                [b, Some 128, Some 128, Some g];
          act6 = Tensor (Conv2d 3 3 1 1)
                   [tf_nn_relu n, variable (q @ [''g_conv_last'', ''w'']) [3, 3, g, 3],
                    variable (q @ [''g_conv_last'', ''biases'']) [3]]
                   [b, Some 128, Some 128, Some 3]
      in tf_nn_tanh act6)"

text \<open>
  \<open>outcome_at p m Q E\<close>: run in the variable scope \<open>p\<close>, on any store, the builder
  \<open>m\<close> returns a value that satisfies \<open>Q\<close> or raises an error that satisfies \<open>E\<close>.
\<close>

definition outcome_at ::
  "string list \<Rightarrow> 'a builder \<Rightarrow> ('a \<Rightarrow> bool) \<Rightarrow> (error \<Rightarrow> bool) \<Rightarrow> bool" where
  "outcome_at p m Q E \<longleftrightarrow>
     (\<forall>vs st. scope_path vs = p \<longrightarrow> (case fst (m vs st) of Inr a \<Rightarrow> Q a | Inl e \<Rightarrow> E e))"

text \<open>
  Two sets of scopes are apart when no name lies under a scope of each. A builder
  creates under the scopes \<open>A\<close> (relative to the current scope) when it changes the
  store only at names under them and, unless it runs with \<open>reuse=True\<close>, raises no
  error of the variable store on a store that holds no variable under them.
\<close>

definition apart :: "string list set \<Rightarrow> string list set \<Rightarrow> bool" where
  "apart A B \<longleftrightarrow> (\<forall>q \<in> A. \<forall>r \<in> B. \<forall>n n'. q @ n \<noteq> r @ n')"

definition creates :: "string list set \<Rightarrow> 'a builder \<Rightarrow> bool" where
  "creates A m \<longleftrightarrow>
     (\<forall>vs st r st'. m vs st = (r, st') \<longrightarrow>
        (\<forall>k. (\<forall>q \<in> A. \<forall>n. k \<noteq> scope_path vs @ q @ n) \<longrightarrow> st' k = st k) \<and>
        (reuse vs \<noteq> ReuseTrue \<longrightarrow> (\<forall>q \<in> A. fresh_under (scope_path vs @ q) st) \<longrightarrow>
           r \<noteq> Inl (Framework VariableStore)))"


section \<open>What the builders return\<close>

subsection \<open>Rules for outcomes\<close>

lemma outcome_atI:
  assumes "\<And>(vs::var_scope) st a st'. scope_path vs = p \<Longrightarrow> m vs st = (Inr a, st') \<Longrightarrow> Q a"
    and "\<And>(vs::var_scope) st e st'. scope_path vs = p \<Longrightarrow> m vs st = (Inl e, st') \<Longrightarrow> E e"
  shows "outcome_at p m Q E"
  unfolding outcome_at_def
proof (intro allI impI)
  fix vs :: var_scope and st
  assume "scope_path vs = p"
  then show "case fst (m vs st) of Inr a \<Rightarrow> Q a | Inl e \<Rightarrow> E e"
    using assms by (cases "m vs st"; cases "fst (m vs st)") auto
qed

lemma outcome_at_InrD: "outcome_at p m Q E \<Longrightarrow> scope_path (vs::var_scope) = p \<Longrightarrow> m vs st = (Inr a, st') \<Longrightarrow> Q a"
  unfolding outcome_at_def by (metis fst_conv sum.simps(6))

lemma outcome_at_InlD: "outcome_at p m Q E \<Longrightarrow> scope_path (vs::var_scope) = p \<Longrightarrow> m vs st = (Inl e, st') \<Longrightarrow> E e"
  unfolding outcome_at_def by (metis fst_conv sum.simps(5))

lemma outcome_then:
  assumes "outcome_at p m Q E" and "\<And>a. Q a \<Longrightarrow> outcome_at p (f a) R E"
  shows "outcome_at p (then_b m f) R E"
proof (rule outcome_atI)
  fix vs :: var_scope and st b st'
  assume p: "scope_path vs = p" and "then_b m f vs st = (Inr b, st')"
  then obtain a st1 where "m vs st = (Inr a, st1)" "f a vs st1 = (Inr b, st')"
    by (auto simp: then_b_def split: prod.splits sum.splits)
  then show "R b" using assms p by (blast dest: outcome_at_InrD)
next
  fix vs :: var_scope and st e st'
  assume p: "scope_path vs = p" and "then_b m f vs st = (Inl e, st')"
  then consider "m vs st = (Inl e, st')"
    | a st1 where "m vs st = (Inr a, st1)" "f a vs st1 = (Inl e, st')"
    by (auto simp: then_b_def split: prod.splits sum.splits)
  then show "E e" using assms p by cases (blast dest: outcome_at_InrD outcome_at_InlD)+
qed

lemma outcome_scope: "outcome_at (p @ [n]) m Q E \<Longrightarrow> outcome_at p (variable_scope n r m) Q E"
  by (simp add: outcome_at_def variable_scope_def)

lemma outcome_lift: "(case r of Inr a \<Rightarrow> Q a | Inl e \<Rightarrow> E e) \<Longrightarrow> outcome_at p (lift r) Q E"
  by (simp add: outcome_at_def lift_def)

lemma outcome_return: "Q a \<Longrightarrow> outcome_at p (return_b a) Q E"
  by (simp add: outcome_at_def return_b_def)

lemma outcome_raise: "E e \<Longrightarrow> outcome_at p (raise_b e) Q E"
  by (simp add: outcome_at_def raise_b_def)

lemma outcome_get_variable:
  "E (Framework VariableStore) \<Longrightarrow>
   outcome_at p (get_variable n shp) (\<lambda>t. t = variable (p @ [n]) shp) E"
  by (rule outcome_atI)
     (auto simp: get_variable_def Let_def split: option.splits if_splits)

lemma ops_conv2d_outcome:
  assumes "E (Framework VariableStore)"
    and "\<not> (\<exists>b h w c. get_shape x = [b, h, w, Some c]) \<Longrightarrow> E (Framework ShapeMismatch)"
    and "output_dim < 0 \<or> k_h < 1 \<or> k_w < 1 \<or> d_h < 1 \<or> d_w < 1 \<Longrightarrow> E (Framework InvalidAttr)"
  shows "outcome_at p (ops_conv2d x output_dim k_h k_w d_h d_w name)
     (\<lambda>t. \<exists>b h w c. get_shape x = [b, h, w, Some c] \<and> 0 \<le> output_dim \<and>
        t = Tensor (Conv2d k_h k_w d_h d_w)
              [x, variable (p @ [name, ''w'']) [nat k_h, nat k_w, c, nat output_dim],
               variable (p @ [name, ''biases'']) [nat output_dim]]
              [b, strided h d_h, strided w d_w, Some (nat output_dim)]) E"
  unfolding ops_conv2d_def using assms
  by (auto split: list.splits option.splits
      intro!: outcome_raise outcome_scope outcome_then[OF outcome_get_variable] outcome_return)

lemma ops_ConditionalBatchNorm_outcome:
  assumes "E (Framework VariableStore)"
    and "\<not> (\<exists>b h w c. get_shape x = [b, h, w, Some c] \<and> labels_fit (get_shape labels) b)
           \<Longrightarrow> E (Framework ShapeMismatch)"
    and "num_categories < 0 \<Longrightarrow> E (Framework InvalidAttr)"
  shows "outcome_at p (ops_ConditionalBatchNorm num_categories name x labels)
     (\<lambda>t. \<exists>b h w c. get_shape x = [b, h, w, Some c] \<and> 0 \<le> num_categories \<and>
        labels_fit (get_shape labels) b \<and>
        t = Tensor ConditionalBatchNorm
              [x, labels, variable (p @ [name, ''gamma'']) [nat num_categories, c],
               variable (p @ [name, ''beta'']) [nat num_categories, c]]
              (get_shape x)) E"
  unfolding ops_ConditionalBatchNorm_def using assms
  by (auto split: list.splits option.splits
      intro!: outcome_raise outcome_scope outcome_then[OF outcome_get_variable] outcome_return)

lemma ops_BatchNorm_outcome:
  assumes "E (Framework VariableStore)"
    and "\<not> (\<exists>b h w c. get_shape x = [b, h, w, Some c]) \<Longrightarrow> E (Framework ShapeMismatch)"
  shows "outcome_at p (ops_BatchNorm name x)
     (\<lambda>t. \<exists>b h w c. get_shape x = [b, h, w, Some c] \<and>
        t = Tensor BatchNorm
              [x, variable (p @ [name, ''gamma'']) [c], variable (p @ [name, ''beta'']) [c]]
              (get_shape x)) E"
  unfolding ops_BatchNorm_def using assms
  by (auto split: list.splits option.splits
      intro!: outcome_raise outcome_scope outcome_then[OF outcome_get_variable] outcome_return)

lemma ops_linear_outcome:
  assumes "E (Framework VariableStore)"
    and "\<not> (\<exists>b k. get_shape x = [b, Some k]) \<or> output_size < 0 \<Longrightarrow> E (Framework ShapeMismatch)"
  shows "outcome_at p (ops_linear x output_size scope)
     (\<lambda>t. \<exists>b k. get_shape x = [b, Some k] \<and> 0 \<le> output_size \<and>
        t = Tensor Linear
              [x, variable (p @ [scope, ''Matrix'']) [k, nat output_size],
               variable (p @ [scope, ''bias'']) [nat output_size]]
              [b, Some (nat output_size)]) E"
  unfolding ops_linear_def using assms
  by (auto split: list.splits option.splits
      intro!: outcome_raise outcome_scope outcome_then[OF outcome_get_variable] outcome_return)


lemma strided_one: "strided d 1 = d"
  by (cases d) (simp_all add: strided_def)

lemma sequence_sum_same: "sequence_sum (map2 broadcast_dim s s) = Inr s"
  by (induction s) (auto simp: broadcast_dim_def split: option.splits)

lemma broadcast_shapes_same: "broadcast_shapes s s = Inr s"
  by (simp add: broadcast_shapes_def sequence_sum_same)

lemma outcome_usample:
  assumes "get_shape x = [b, h, w, c]"
    and "h = None \<or> w = None \<Longrightarrow> E (Builtin TypeError)"
  shows "outcome_at p (lift (usample x))
     (\<lambda>u. \<exists>h' w'. h = Some h' \<and> w = Some w' \<and>
        u = Tensor (ResizeNearestNeighbor [2 * int h', 2 * int w']) [x]
              [b, Some (2 * h'), Some (2 * w'), c]) E"
  using assms
  by (cases h; cases w)
     (auto intro!: outcome_lift
        simp: usample_def py_mul_def tf_image_resize_nearest_neighbor_def nat_mult_distrib)

lemma block_outcome:
  assumes VS: "E (Framework VariableStore)"
    and SM: "\<not> (\<exists>b h w c. get_shape x = [b, h, w, Some c] \<and> labels_fit (get_shape labels) b)
           \<Longrightarrow> E (Framework ShapeMismatch)"
    and IA: "num_classes < 0 \<or> out_channels < 0 \<Longrightarrow> E (Framework InvalidAttr)"
    and TE: "\<exists>b h w c. get_shape x = [b, h, w, c] \<and> (h = None \<or> w = None) \<Longrightarrow> E (Builtin TypeError)"
  shows "outcome_at p (block x labels out_channels num_classes name)
     (\<lambda>t. \<exists>b h w c. get_shape x = [b, Some h, Some w, Some c] \<and>
        0 \<le> out_channels \<and> 0 \<le> num_classes \<and> labels_fit (get_shape labels) b \<and>
        t = block_graph (p @ [name]) x labels (nat out_channels) (nat num_classes) b h w c) E"
  unfolding block_def Let_def
  apply (rule outcome_scope)
  apply (rule outcome_then)
   apply (rule ops_ConditionalBatchNorm_outcome)
     apply (rule VS)
    apply (erule SM)
   apply (simp add: IA)
  apply (elim exE conjE)
  apply (rule outcome_then)
   apply (rule outcome_usample)
    apply (simp add: tf_nn_relu_def)
   apply (rule TE)
   apply blast
  apply (elim exE conjE)
  apply (rule outcome_then)
   apply (rule ops_conv2d_outcome)
     apply (rule VS)
    apply simp
   apply (simp add: IA)
  apply (elim exE conjE)
  apply (rule outcome_then)
   apply (rule ops_ConditionalBatchNorm_outcome)
     apply (rule VS)
    apply simp
   apply (simp add: IA)
  apply (elim exE conjE)
  apply (rule outcome_then)
   apply (rule ops_conv2d_outcome)
     apply (rule VS)
    apply (simp add: tf_nn_relu_def)
   apply (simp add: IA)
  apply (elim exE conjE)
  apply (rule outcome_then)
   apply (rule outcome_usample)
    apply assumption
   apply (rule TE)
   apply blast
  apply (elim exE conjE)
  apply (rule outcome_then)
   apply (rule ops_conv2d_outcome)
     apply (rule VS)
    apply simp
   apply (simp add: IA)
  apply (elim exE conjE)
  apply (rule outcome_lift)
  apply (clarsimp simp: tf_add_def broadcast_shapes_same strided_one tf_nn_relu_def
      block_graph_def Let_def)
  done


lemma get_shape_block_graph:
  "get_shape (block_graph q x labels oc nc b h w c) = [b, Some (2 * h), Some (2 * w), Some oc]"
  by (simp add: block_graph_def Let_def)

lemma outcome_reshape_latent:
  assumes "get_shape h0 = [b, Some (nat (gf_dim * 16 * 4 * 4))]" and "0 \<le> gf_dim"
    and "gf_dim = 0 \<and> b \<noteq> None \<Longrightarrow> E (Framework ShapeMismatch)"
  shows "outcome_at p (lift (tf_reshape h0 [-1, 4, 4, gf_dim * 16]))
     (\<lambda>t. (0 < gf_dim \<or> b = None) \<and>
        t = Tensor (Reshape [-1, 4, 4, gf_dim * 16]) [h0]
              [b, Some 4, Some 4, Some (16 * nat gf_dim)]) E"
proof -
  have n: "nat (gf_dim * 16 * 4 * 4) = 16 * (16 * nat gf_dim)" "nat (gf_dim * 16) = 16 * nat gf_dim"
    using assms(2) by (simp_all add: nat_mult_distrib)
  show ?thesis
  proof (cases b)
    case None
    then show ?thesis using assms n
      by (auto intro!: outcome_lift simp: tf_reshape_def reshaped_def Let_def)
  next
    case (Some B)
    then show ?thesis using assms n
      by (auto intro!: outcome_lift simp: tf_reshape_def reshaped_def Let_def)
  qed
qed


lemma generator_outcome:
  assumes VS: "E (Framework VariableStore)"
    and SM: "\<not> (\<exists>b k. get_shape zs = [b, Some k] \<and> labels_fit (get_shape target_class) b \<and>
                 0 \<le> gf_dim \<and> (0 < gf_dim \<or> b = None))
           \<Longrightarrow> E (Framework ShapeMismatch)"
    and IA: "num_classes < 0 \<Longrightarrow> E (Framework InvalidAttr)"
  shows "outcome_at p (generator zs target_class gf_dim num_classes scope)
     (\<lambda>out. \<exists>b k. get_shape zs = [b, Some k] \<and> labels_fit (get_shape target_class) b \<and>
        0 \<le> gf_dim \<and> (0 < gf_dim \<or> b = None) \<and> 0 \<le> num_classes \<and>
        out = generator_graph (p @ [scope]) zs target_class gf_dim (nat num_classes) b k) E"
  unfolding generator_def Let_def
  apply (rule outcome_scope)
  apply (rule outcome_then)
   apply (rule ops_linear_outcome)
    apply (rule VS)
   apply (use SM in auto)[1]
  apply (elim exE conjE)
  apply (rule outcome_then)
   apply (rule outcome_reshape_latent)
     apply simp
    apply simp
   apply (use SM in auto)[1]
  apply (elim exE conjE)
  apply (rule outcome_then)
   apply (rule block_outcome)
      apply (rule VS)
     apply (use SM in \<open>auto simp: get_shape_block_graph\<close>)[1]
    apply (use IA in \<open>auto simp: get_shape_block_graph\<close>)[1]
   apply (simp add: get_shape_block_graph)
  apply (clarsimp simp: get_shape_block_graph nat_mult_distrib)
  apply (rule outcome_then)
   apply (rule block_outcome)
      apply (rule VS)
     apply (use SM in \<open>auto simp: get_shape_block_graph\<close>)[1]
    apply (use IA in \<open>auto simp: get_shape_block_graph\<close>)[1]
   apply (simp add: get_shape_block_graph)
  apply (clarsimp simp: get_shape_block_graph nat_mult_distrib)
  apply (rule outcome_then)
   apply (rule block_outcome)
      apply (rule VS)
     apply (use SM in \<open>auto simp: get_shape_block_graph\<close>)[1]
    apply (use IA in \<open>auto simp: get_shape_block_graph\<close>)[1]
   apply (simp add: get_shape_block_graph)
  apply (clarsimp simp: get_shape_block_graph nat_mult_distrib)
  apply (rule outcome_then)
   apply (rule block_outcome)
      apply (rule VS)
     apply (use SM in \<open>auto simp: get_shape_block_graph\<close>)[1]
    apply (use IA in \<open>auto simp: get_shape_block_graph\<close>)[1]
   apply (simp add: get_shape_block_graph)
  apply (clarsimp simp: get_shape_block_graph nat_mult_distrib)
  apply (rule outcome_then)
   apply (rule block_outcome)
      apply (rule VS)
     apply (use SM in \<open>auto simp: get_shape_block_graph\<close>)[1]
    apply (use IA in \<open>auto simp: get_shape_block_graph\<close>)[1]
   apply (simp add: get_shape_block_graph)
  apply (clarsimp simp: get_shape_block_graph nat_mult_distrib)
  apply (rule outcome_then)
   apply (rule ops_BatchNorm_outcome)
    apply (rule VS)
   apply (simp add: get_shape_block_graph)
  apply (clarsimp simp: get_shape_block_graph)
  apply (rule outcome_then)
   apply (rule ops_conv2d_outcome)
     apply (rule VS)
    apply (simp add: tf_nn_relu_def)
   apply simp
  apply (rule outcome_return)
  apply (clarsimp simp: generator_graph_def latent_def Let_def strided_one tf_nn_relu_def nat_mult_distrib
      mult.commute)
  done

subsection \<open>Variables on a fresh store\<close>

lemma creates_lift: "r \<noteq> Inl (Framework VariableStore) \<Longrightarrow> creates {} (lift r)"
  by (auto simp: creates_def lift_def)

lemma creates_return: "creates {} (return_b a)"
  by (auto simp: creates_def return_b_def)

lemma creates_raise: "e \<noteq> Framework VariableStore \<Longrightarrow> creates {} (raise_b e)"
  by (auto simp: creates_def raise_b_def)

lemma creates_get_variable: "creates {[n]} (get_variable n shp)"
  unfolding creates_def
proof (intro allI impI conjI)
  fix vs :: var_scope and st r st' k
  assume run: "get_variable n shp vs st = (r, st')"
  {
    assume "\<forall>q \<in> {[n]}. \<forall>m. k \<noteq> scope_path vs @ q @ m"
    then have "k \<noteq> scope_path vs @ [n]" by (metis append_Nil2 singletonI)
    then show "st' k = st k" using run
      by (auto simp: get_variable_def Let_def split: option.splits if_splits)
  }
  {
    assume "reuse vs \<noteq> ReuseTrue" and "\<forall>q \<in> {[n]}. fresh_under (scope_path vs @ q) st"
    then have "st (scope_path vs @ [n]) = None"
      unfolding fresh_under_def by (metis append_Nil2 singletonI)
    then show "r \<noteq> Inl (Framework VariableStore)" using run \<open>reuse vs \<noteq> ReuseTrue\<close>
      by (auto simp: get_variable_def Let_def)
  }
qed

lemma creates_then:
  assumes m: "creates A m" and f: "\<And>a. creates B (f a)" and ab: "apart A B"
  shows "creates (A \<union> B) (then_b m f)"
  unfolding creates_def
proof (intro allI impI conjI)
  fix vs :: var_scope and st r st' k
  assume run: "then_b m f vs st = (r, st')"
  then consider e where "m vs st = (Inl e, st')" "r = Inl e"
    | a st1 where "m vs st = (Inr a, st1)" "f a vs st1 = (r, st')"
    by (auto simp: then_b_def split: prod.splits sum.splits)
  note cases = this
  {
    assume k: "\<forall>q \<in> A \<union> B. \<forall>n. k \<noteq> scope_path vs @ q @ n"
    from cases show "st' k = st k"
    proof cases
      case 1
      then show ?thesis using m k unfolding creates_def by blast
    next
      case 2
      have "st1 k = st k" using m k 2(1) unfolding creates_def by blast
      moreover have "st' k = st1 k" using f[of a] k 2(2) unfolding creates_def by blast
      ultimately show ?thesis by simp
    qed
  }
  {
    assume ru: "reuse vs \<noteq> ReuseTrue" and fr: "\<forall>q \<in> A \<union> B. fresh_under (scope_path vs @ q) st"
    from cases show "r \<noteq> Inl (Framework VariableStore)"
    proof cases
      case 1
      then show ?thesis using m ru fr unfolding creates_def by blast
    next
      case 2
      have "fresh_under (scope_path vs @ r') st1" if "r' \<in> B" for r'
        unfolding fresh_under_def
      proof
        fix n
        have "\<forall>q \<in> A. \<forall>n'. scope_path vs @ r' @ n \<noteq> scope_path vs @ q @ n'"
          using ab that unfolding apart_def by (metis same_append_eq)
        then have "st1 (scope_path vs @ r' @ n) = st (scope_path vs @ r' @ n)"
          using m 2(1) unfolding creates_def by blast
        also have "\<dots> = None" using fr that unfolding fresh_under_def by (metis UnI2 append_assoc)
        finally show "st1 ((scope_path vs @ r') @ n) = None" by simp
      qed
      then show ?thesis using f[of a] ru 2(2) unfolding creates_def by blast
    qed
  }
qed

lemma creates_scope:
  assumes "creates A m" and "r \<noteq> ReuseTrue"
  shows "creates ((#) n ` A) (variable_scope n r m)"
  unfolding creates_def
proof (intro allI impI conjI)
  fix vs :: var_scope and st res st' k
  let ?vs = "\<lparr>scope_path = scope_path vs @ [n], reuse = (if r = ReuseNone then reuse vs else r)\<rparr>"
  assume "variable_scope n r m vs st = (res, st')"
  then have run: "m ?vs st = (res, st')" by (simp add: variable_scope_def)
  {
    assume "\<forall>q \<in> (#) n ` A. \<forall>j. k \<noteq> scope_path vs @ q @ j"
    then have "\<forall>q \<in> A. \<forall>j. k \<noteq> scope_path ?vs @ q @ j" by simp
    then show "st' k = st k" using assms(1) run unfolding creates_def by blast
  }
  {
    assume ru: "reuse vs \<noteq> ReuseTrue" and fr: "\<forall>q \<in> (#) n ` A. fresh_under (scope_path vs @ q) st"
    have "reuse ?vs \<noteq> ReuseTrue" using ru assms(2) by simp
    moreover have "\<forall>q \<in> A. fresh_under (scope_path ?vs @ q) st" using fr by simp
    ultimately show "res \<noteq> Inl (Framework VariableStore)"
      using assms(1) run unfolding creates_def by blast
  }
qed

lemma creates_under:
  assumes "creates A m" and "\<forall>q \<in> A. \<exists>n. q = [s] @ n"
  shows "creates {[s]} m"
  unfolding creates_def
proof (intro allI impI conjI)
  fix vs :: var_scope and st r st' k
  assume run: "m vs st = (r, st')"
  {
    assume "\<forall>q \<in> {[s]}. \<forall>n. k \<noteq> scope_path vs @ q @ n"
    then have "\<forall>q \<in> A. \<forall>n. k \<noteq> scope_path vs @ q @ n"
      using assms(2) by (metis append_assoc singletonI)
    then show "st' k = st k" using assms(1) run unfolding creates_def by blast
  }
  {
    assume ru: "reuse vs \<noteq> ReuseTrue" and fr: "\<forall>q \<in> {[s]}. fresh_under (scope_path vs @ q) st"
    have "\<forall>q \<in> A. fresh_under (scope_path vs @ q) st"
    proof
      fix q assume "q \<in> A"
      then obtain n where "q = [s] @ n" using assms(2) by blast
      then show "fresh_under (scope_path vs @ q) st"
        using fr unfolding fresh_under_def by (metis append_assoc singletonI)
    qed
    then show "r \<noteq> Inl (Framework VariableStore)" using assms(1) run ru unfolding creates_def by blast
  }
qed


lemma apart_empty: "apart A {}"
  by (simp add: apart_def)

lemma apart_Un: "apart A (B \<union> C) \<longleftrightarrow> apart A B \<and> apart A C"
  by (auto simp: apart_def)

lemma apart_single: "apart {[a]} {[b]} \<longleftrightarrow> a \<noteq> b"
  by (auto simp: apart_def)

lemma apart_empty_left: "apart {} B"
  by (simp add: apart_def)

lemma apart_insert: "apart A (insert b (insert c B)) \<longleftrightarrow> apart A {b} \<and> apart A (insert c B)"
  by (auto simp: apart_def)

lemmas apart_simps = apart_empty apart_empty_left apart_Un apart_insert apart_single

lemma creates_scope_under:
  assumes "creates A m" and "r \<noteq> ReuseTrue"
  shows "creates {[n]} (variable_scope n r m)"
  by (rule creates_under[OF creates_scope[OF assms]]) auto

lemma creates_pure: "creates {} m \<Longrightarrow> creates {[n]} m"
  by (rule creates_under) auto

lemma creates_two_variables:
  assumes "a \<noteq> b"
  shows "creates {[name]}
     (variable_scope name ReuseNone
        (then_b (get_variable a sa) (\<lambda>u. then_b (get_variable b sb) (\<lambda>v. return_b (F u v)))))"
proof (rule creates_scope_under)
  show "creates ({[a]} \<union> ({[b]} \<union> {}))
     (then_b (get_variable a sa) (\<lambda>u. then_b (get_variable b sb) (\<lambda>v. return_b (F u v))))"
    using assms
    by (intro creates_then creates_get_variable creates_return) (simp_all add: apart_simps)
qed simp

lemma creates_ops_linear: "creates {[scope]} (ops_linear x output_size scope)"
  unfolding ops_linear_def
  by (auto split: list.splits option.splits
      intro!: creates_two_variables creates_pure[OF creates_raise])

lemma creates_ops_conv2d: "creates {[name]} (ops_conv2d x output_dim k_h k_w d_h d_w name)"
  unfolding ops_conv2d_def
  by (auto split: list.splits option.splits
      intro!: creates_two_variables creates_pure[OF creates_raise])

lemma creates_ops_ConditionalBatchNorm:
  "creates {[name]} (ops_ConditionalBatchNorm num_categories name x labels)"
  unfolding ops_ConditionalBatchNorm_def
  by (auto split: list.splits option.splits
      intro!: creates_two_variables creates_pure[OF creates_raise])

lemma creates_ops_BatchNorm: "creates {[name]} (ops_BatchNorm name x)"
  unfolding ops_BatchNorm_def
  by (auto split: list.splits option.splits
      intro!: creates_two_variables creates_pure[OF creates_raise])

lemma usample_not_store: "usample x \<noteq> Inl (Framework VariableStore)"
  by (auto simp: usample_def py_mul_def tf_image_resize_nearest_neighbor_def
      split: list.splits option.splits)

lemma sequence_sum_broadcast_not_store:
  "sequence_sum (map2 broadcast_dim s t) \<noteq> Inl (Framework VariableStore)"
proof (induction s arbitrary: t)
  case Nil
  then show ?case by simp
next
  case (Cons d s)
  show ?case
  proof (cases t)
    case Nil
    then show ?thesis by simp
  next
    case (Cons e t')
    then show ?thesis using Cons.IH[of t']
      by (cases "broadcast_dim d e")
         (auto simp: broadcast_dim_def split: option.splits if_splits sum.splits)
  qed
qed

lemma tf_add_not_store: "tf_add x y \<noteq> Inl (Framework VariableStore)"
  using sequence_sum_broadcast_not_store
  by (auto simp: tf_add_def broadcast_shapes_def Let_def split: sum.splits)

lemma tf_reshape_not_store: "tf_reshape x target \<noteq> Inl (Framework VariableStore)"
  by (auto simp: tf_reshape_def Let_def split: option.splits)

lemma creates_block: "creates {[name]} (block x labels out_channels num_classes name)"
  unfolding block_def Let_def
  apply (rule creates_scope_under[where A = "{[''cbn_0'']} \<union> ({} \<union> ({[''conv1'']} \<union>
          ({[''cbn_1'']} \<union> ({[''conv2'']} \<union> ({} \<union> ({[''conv3'']} \<union> {}))))))"])
   apply (intro creates_then creates_ops_ConditionalBatchNorm creates_ops_conv2d creates_lift
      usample_not_store tf_add_not_store)
         apply (simp_all add: apart_simps)
  done

lemma creates_generator_body:
  "creates ({[''g_h0'']} \<union> ({} \<union> ({[''g_block1'']} \<union> ({[''g_block2'']} \<union> ({[''g_block3'']} \<union>
          ({[''g_block4'']} \<union> ({[''g_block5'']} \<union> ({[''g_bn'']} \<union> ({[''g_conv_last'']} \<union> {})))))))))
       (then_b (ops_linear zs (gf_dim * 16 * 4 * 4) ''g_h0'') (\<lambda>act0.
        then_b (lift (tf_reshape act0 [-1, 4, 4, gf_dim * 16])) (\<lambda>act0.
        then_b (block act0 target_class (gf_dim * 16) num_classes ''g_block1'') (\<lambda>act1.
        then_b (block act1 target_class (gf_dim * 8) num_classes ''g_block2'') (\<lambda>act2.
        then_b (block act2 target_class (gf_dim * 4) num_classes ''g_block3'') (\<lambda>act3.
        then_b (block act3 target_class (gf_dim * 2) num_classes ''g_block4'') (\<lambda>act4.
        then_b (block act4 target_class gf_dim num_classes ''g_block5'') (\<lambda>act5.
        then_b (ops_BatchNorm ''g_bn'' act5) (\<lambda>n.
        then_b (ops_conv2d (tf_nn_relu n) 3 3 3 1 1 ''g_conv_last'') (\<lambda>act6.
        return_b (tf_nn_tanh act6)))))))))))"
  by (intro creates_then creates_ops_linear creates_block creates_ops_BatchNorm
      creates_ops_conv2d creates_lift creates_return tf_reshape_not_store)
     (simp_all add: apart_simps)

lemma createsD:
  assumes "creates A m" and "m vs st = (r, st')" and "reuse vs \<noteq> ReuseTrue"
    and "\<forall>q \<in> A. fresh_under (scope_path vs @ q) st"
  shows "r \<noteq> Inl (Framework VariableStore)"
  using assms unfolding creates_def by blast

lemma generator_fresh:
  assumes "fresh_under (scope_path vs @ [scope]) st"
  shows "fst (generator zs target_class gf_dim num_classes scope vs st)
           \<noteq> Inl (Framework VariableStore)"
proof -
  let ?vs = "\<lparr>scope_path = scope_path vs @ [scope], reuse = AUTO_REUSE\<rparr>"
  let ?A = "{[''g_h0'']} \<union> ({} \<union> ({[''g_block1'']} \<union> ({[''g_block2'']} \<union> ({[''g_block3'']} \<union>
          ({[''g_block4'']} \<union> ({[''g_block5'']} \<union> ({[''g_bn'']} \<union> ({[''g_conv_last'']} \<union> {}))))))))"
  obtain r st' where run: "generator zs target_class gf_dim num_classes scope vs st = (r, st')"
    by (cases "generator zs target_class gf_dim num_classes scope vs st")
  have fr: "\<forall>q \<in> ?A. fresh_under (scope_path ?vs @ q) st"
    using assms by (auto simp: fresh_under_def)
  have ru: "reuse ?vs \<noteq> ReuseTrue" by simp
  have body: "then_b (ops_linear zs (gf_dim * 16 * 4 * 4) ''g_h0'') (\<lambda>act0.
        then_b (lift (tf_reshape act0 [-1, 4, 4, gf_dim * 16])) (\<lambda>act0.
        then_b (block act0 target_class (gf_dim * 16) num_classes ''g_block1'') (\<lambda>act1.
        then_b (block act1 target_class (gf_dim * 8) num_classes ''g_block2'') (\<lambda>act2.
        then_b (block act2 target_class (gf_dim * 4) num_classes ''g_block3'') (\<lambda>act3.
        then_b (block act3 target_class (gf_dim * 2) num_classes ''g_block4'') (\<lambda>act4.
        then_b (block act4 target_class gf_dim num_classes ''g_block5'') (\<lambda>act5.
        then_b (ops_BatchNorm ''g_bn'' act5) (\<lambda>n.
        then_b (ops_conv2d (tf_nn_relu n) 3 3 3 1 1 ''g_conv_last'') (\<lambda>act6.
        return_b (tf_nn_tanh act6)))))))))) ?vs st = (r, st')"
    using run by (simp add: generator_def Let_def variable_scope_def)
  have "r \<noteq> Inl (Framework VariableStore)"
    by (rule createsD[OF creates_generator_body body ru fr])
  then show ?thesis using run by simp
qed

lemma block_fresh:
  assumes "reuse vs \<noteq> ReuseTrue" and "fresh_under (scope_path vs @ [name]) st"
  shows "fst (block x labels out_channels num_classes name vs st) \<noteq> Inl (Framework VariableStore)"
proof -
  obtain r st' where run: "block x labels out_channels num_classes name vs st = (r, st')"
    by (cases "block x labels out_channels num_classes name vs st")
  have fr: "\<forall>q \<in> {[name]}. fresh_under (scope_path vs @ q) st" using assms(2) by simp
  have "r \<noteq> Inl (Framework VariableStore)"
    by (rule createsD[OF creates_block run assms(1) fr])
  then show ?thesis using run by simp
qed

subsection \<open>Building the same graph again\<close>















subsection \<open>Reading the graphs back\<close>

lemma arg_simps:
  "arg (tf_nn_tanh t) = t" "arg (tf_nn_relu t) = t"
  by (simp_all add: arg_def tf_nn_tanh_def tf_nn_relu_def)

lemma is_variable_variable: "is_variable (variable n shp)"
  by (simp add: is_variable_def variable_def)

lemma residual_block_graph:
  assumes "get_shape x = [b, Some h, Some w, Some c]"
  shows "residual_upsampling_block (block_graph q x labels oc nc b h w c) x"
  using assms
  by (simp add: residual_upsampling_block_def block_graph_def Let_def arg_def convolved_def
      doubled_def is_variable_variable tf_nn_relu_def)

lemma conditional_block_graph:
  assumes "get_shape x = [b, Some h, Some w, Some c]"
  shows "conditional_block q nc (block_graph q x labels oc nc b h w c) x labels"
  using assms
  by (simp add: conditional_block_def conditional_batch_norm_def block_graph_def Let_def arg_def
      convolved_def is_variable_variable tf_nn_relu_def)


lemma get_shape_latent: "get_shape (latent q zs gf_dim b k) = [b, Some 4, Some 4, Some (16 * nat gf_dim)]"
  by (simp add: latent_def Let_def)

lemma latent_projection:
  "reshaped_from (latent q zs gf_dim b k) (arg (latent q zs gf_dim b k)) \<and>
   projected (arg (latent q zs gf_dim b k)) zs"
  by (simp add: latent_def Let_def reshaped_from_def projected_def arg_def is_variable_variable)

lemma convolved_arg: "convolved k_h k_w t x \<Longrightarrow> arg t = x"
  by (auto simp: convolved_def arg_def split: list.splits)

lemma batch_normalized_arg: "batch_normalized t x \<Longrightarrow> arg t = x"
  by (auto simp: batch_normalized_def arg_def split: list.splits)

lemma generator_graph_chain:
  fixes q zs target_class gf_dim nc b k
  defines "g \<equiv> nat gf_dim"
  defines "out \<equiv> generator_graph q zs target_class gf_dim nc b k"
  obtains act0 act1 act2 act3 act4 act5 n act6 where
     "out = tf_nn_tanh act6" and "convolved 3 3 act6 (tf_nn_relu n)" and "batch_normalized n act5"
     and "get_shape out = [b, Some 128, Some 128, Some 3]"
     and "get_shape act6 = [b, Some 128, Some 128, Some 3]"
     and "residual_upsampling_block act5 act4" and "residual_upsampling_block act4 act3"
     and "residual_upsampling_block act3 act2" and "residual_upsampling_block act2 act1"
     and "residual_upsampling_block act1 act0"
     and "conditional_block (q @ [''g_block5'']) nc act5 act4 target_class"
     and "conditional_block (q @ [''g_block4'']) nc act4 act3 target_class"
     and "conditional_block (q @ [''g_block3'']) nc act3 act2 target_class"
     and "conditional_block (q @ [''g_block2'']) nc act2 act1 target_class"
     and "conditional_block (q @ [''g_block1'']) nc act1 act0 target_class"
     and "reshaped_from act0 (arg act0)" and "projected (arg act0) zs"
     and "map get_shape [act0, act1, act2, act3, act4, act5] =
       [[b, Some 4, Some 4, Some (16 * g)], [b, Some 8, Some 8, Some (16 * g)],
        [b, Some 16, Some 16, Some (8 * g)], [b, Some 32, Some 32, Some (4 * g)],
        [b, Some 64, Some 64, Some (2 * g)], [b, Some 128, Some 128, Some g]]"
proof -
  define act0 where "act0 = latent q zs gf_dim b k"
  define act1 where "act1 = block_graph (q @ [''g_block1'']) act0 target_class (16 * g) nc b 4 4 (16 * g)"
  define act2 where "act2 = block_graph (q @ [''g_block2'']) act1 target_class (8 * g) nc b 8 8 (16 * g)"
  define act3 where "act3 = block_graph (q @ [''g_block3'']) act2 target_class (4 * g) nc b 16 16 (8 * g)"
  define act4 where "act4 = block_graph (q @ [''g_block4'']) act3 target_class (2 * g) nc b 32 32 (4 * g)"
  define act5 where "act5 = block_graph (q @ [''g_block5'']) act4 target_class g nc b 64 64 (2 * g)"
  define n where "n = Tensor BatchNorm
      [act5, variable (q @ [''g_bn'', ''gamma'']) [g], variable (q @ [''g_bn'', ''beta'']) [g]]
      [b, Some 128, Some 128, Some g]"
  define act6 where "act6 = Tensor (Conv2d 3 3 1 1)
      [tf_nn_relu n, variable (q @ [''g_conv_last'', ''w'']) [3, 3, g, 3],
       variable (q @ [''g_conv_last'', ''biases'']) [3]]
      [b, Some 128, Some 128, Some 3]"
  have s0: "get_shape act0 = [b, Some 4, Some 4, Some (16 * g)]"
    by (simp add: act0_def get_shape_latent g_def)
  have s1: "get_shape act1 = [b, Some 8, Some 8, Some (16 * g)]"
    by (simp add: act1_def get_shape_block_graph)
  have s2: "get_shape act2 = [b, Some 16, Some 16, Some (8 * g)]"
    by (simp add: act2_def get_shape_block_graph)
  have s3: "get_shape act3 = [b, Some 32, Some 32, Some (4 * g)]"
    by (simp add: act3_def get_shape_block_graph)
  have s4: "get_shape act4 = [b, Some 64, Some 64, Some (2 * g)]"
    by (simp add: act4_def get_shape_block_graph)
  have s5: "get_shape act5 = [b, Some 128, Some 128, Some g]"
    by (simp add: act5_def get_shape_block_graph)
  have out: "out = tf_nn_tanh act6"
    by (simp add: out_def generator_graph_def Let_def act6_def n_def act5_def act4_def act3_def
        act2_def act1_def act0_def g_def)
  have c6: "convolved 3 3 act6 (tf_nn_relu n)"
    by (simp add: act6_def convolved_def is_variable_variable)
  have bn: "batch_normalized n act5"
    by (simp add: n_def batch_normalized_def is_variable_variable)
  have so: "get_shape out = [b, Some 128, Some 128, Some 3]" "get_shape act6 = [b, Some 128, Some 128, Some 3]"
    by (simp_all add: out act6_def tf_nn_tanh_def)
  have r1: "residual_upsampling_block act1 act0"
    and k1: "conditional_block (q @ [''g_block1'']) nc act1 act0 target_class"
    unfolding act1_def by (rule residual_block_graph[OF s0], rule conditional_block_graph[OF s0])
  have r2: "residual_upsampling_block act2 act1"
    and k2: "conditional_block (q @ [''g_block2'']) nc act2 act1 target_class"
    unfolding act2_def by (rule residual_block_graph[OF s1], rule conditional_block_graph[OF s1])
  have r3: "residual_upsampling_block act3 act2"
    and k3: "conditional_block (q @ [''g_block3'']) nc act3 act2 target_class"
    unfolding act3_def by (rule residual_block_graph[OF s2], rule conditional_block_graph[OF s2])
  have r4: "residual_upsampling_block act4 act3"
    and k4: "conditional_block (q @ [''g_block4'']) nc act4 act3 target_class"
    unfolding act4_def by (rule residual_block_graph[OF s3], rule conditional_block_graph[OF s3])
  have r5: "residual_upsampling_block act5 act4"
    and k5: "conditional_block (q @ [''g_block5'']) nc act5 act4 target_class"
    unfolding act5_def by (rule residual_block_graph[OF s4], rule conditional_block_graph[OF s4])
  have l0: "reshaped_from act0 (arg act0)" "projected (arg act0) zs"
    unfolding act0_def using latent_projection by blast+
  have shapes: "map get_shape [act0, act1, act2, act3, act4, act5] =
       [[b, Some 4, Some 4, Some (16 * g)], [b, Some 8, Some 8, Some (16 * g)],
        [b, Some 16, Some 16, Some (8 * g)], [b, Some 32, Some 32, Some (4 * g)],
        [b, Some 64, Some 64, Some (2 * g)], [b, Some 128, Some 128, Some g]]"
    by (simp add: s0 s1 s2 s3 s4 s5)
  show thesis
    by (rule that[of act6 n act5 act4 act3 act2 act1 act0])
       (fact out c6 bn so r1 r2 r3 r4 r5 k1 k2 k3 k4 k5 l0 shapes)+
qed

lemma generator_built:
  assumes "generator zs target_class gf_dim num_classes scope vs st = (Inr out, st')"
  shows "\<exists>b k. get_shape zs = [b, Some k] \<and> labels_fit (get_shape target_class) b \<and>
     0 \<le> gf_dim \<and> 0 \<le> num_classes \<and>
     out = generator_graph (scope_path vs @ [scope]) zs target_class gf_dim (nat num_classes) b k"
proof -
  have "outcome_at (scope_path vs) (generator zs target_class gf_dim num_classes scope)
     (\<lambda>out. \<exists>b k. get_shape zs = [b, Some k] \<and> labels_fit (get_shape target_class) b \<and>
        0 \<le> gf_dim \<and> (0 < gf_dim \<or> b = None) \<and> 0 \<le> num_classes \<and>
        out = generator_graph (scope_path vs @ [scope]) zs target_class gf_dim (nat num_classes) b k)
     (\<lambda>e. True)"
    by (rule generator_outcome) simp_all
  from outcome_at_InrD[OF this refl assms] show ?thesis by blast
qed

lemma block_built:
  assumes "block x labels out_channels num_classes name vs st = (Inr t, st')"
  shows "\<exists>b h w c. get_shape x = [b, Some h, Some w, Some c] \<and>
     t = block_graph (scope_path vs @ [name]) x labels (nat out_channels) (nat num_classes) b h w c"
proof -
  have "outcome_at (scope_path vs) (block x labels out_channels num_classes name)
     (\<lambda>t. \<exists>b h w c. get_shape x = [b, Some h, Some w, Some c] \<and>
        0 \<le> out_channels \<and> 0 \<le> num_classes \<and> labels_fit (get_shape labels) b \<and>
        t = block_graph (scope_path vs @ [name]) x labels (nat out_channels) (nat num_classes) b h w c)
     (\<lambda>e. True)"
    by (rule block_outcome) simp_all
  from outcome_at_InrD[OF this refl assms] show ?thesis by blast
qed

lemma generator_valid_outcome:
  assumes "get_shape zs = [b, Some k]" and "labels_fit (get_shape target_class) b"
    and "0 < gf_dim" and "0 \<le> num_classes"
  shows "case fst (generator zs target_class gf_dim num_classes scope vs st) of
           Inr out \<Rightarrow>
             out = generator_graph (scope_path vs @ [scope]) zs target_class gf_dim
                     (nat num_classes) b k
         | Inl e \<Rightarrow>
             e = Framework VariableStore \<and> \<not> fresh_under (scope_path vs @ [scope]) st"
proof -
  have out: "outcome_at (scope_path vs) (generator zs target_class gf_dim num_classes scope)
     (\<lambda>out. \<exists>b k. get_shape zs = [b, Some k] \<and> labels_fit (get_shape target_class) b \<and>
        0 \<le> gf_dim \<and> (0 < gf_dim \<or> b = None) \<and> 0 \<le> num_classes \<and>
        out = generator_graph (scope_path vs @ [scope]) zs target_class gf_dim (nat num_classes) b k)
     (\<lambda>e. e = Framework VariableStore)"
    by (rule generator_outcome) (use assms in auto)
  obtain r st' where run: "generator zs target_class gf_dim num_classes scope vs st = (r, st')"
    by (cases "generator zs target_class gf_dim num_classes scope vs st")
  show ?thesis
  proof (cases r)
    case (Inr t)
    then show ?thesis using outcome_at_InrD[OF out refl] run assms(1) by auto
  next
    case (Inl e)
    then have "e = Framework VariableStore"
      using outcome_at_InlD[OF out refl] run by blast
    moreover have "\<not> fresh_under (scope_path vs @ [scope]) st"
    proof
      assume "fresh_under (scope_path vs @ [scope]) st"
      then have "fst (generator zs target_class gf_dim num_classes scope vs st)
          \<noteq> Inl (Framework VariableStore)"
        by (rule generator_fresh)
      then show False using run Inl calculation by simp
    qed
    ultimately show ?thesis using run Inl by simp
  qed
qed

lemma generator_built_fst:
  assumes "fst (generator zs target_class gf_dim num_classes scope vs st) = Inr out"
  shows "\<exists>b k. get_shape zs = [b, Some k] \<and> labels_fit (get_shape target_class) b \<and>
     0 \<le> gf_dim \<and> 0 \<le> num_classes \<and>
     out = generator_graph (scope_path vs @ [scope]) zs target_class gf_dim (nat num_classes) b k"
  using assms generator_built[of zs target_class gf_dim num_classes scope vs st out]
  by (cases "generator zs target_class gf_dim num_classes scope vs st") simp

lemma block_built_fst:
  assumes "fst (block x labels out_channels num_classes name vs st) = Inr t"
  shows "\<exists>b h w c. get_shape x = [b, Some h, Some w, Some c] \<and>
     t = block_graph (scope_path vs @ [name]) x labels (nat out_channels) (nat num_classes) b h w c"
  using assms block_built[of x labels out_channels num_classes name vs st t]
  by (cases "block x labels out_channels num_classes name vs st") simp

lemma generator_example:
  "fst (generator (Tensor (Placeholder ''zs'') [] [Some 2, Some 128])
          (Tensor (Placeholder ''target_class'') [] [Some 2]) 64 1000 ''Generator''
          \<lparr>scope_path = [], reuse = ReuseNone\<rparr> Map.empty)
   = Inr (generator_graph [''Generator''] (Tensor (Placeholder ''zs'') [] [Some 2, Some 128])
          (Tensor (Placeholder ''target_class'') [] [Some 2]) 64 1000 (Some 2) 128)"
  using generator_valid_outcome[where zs = "Tensor (Placeholder ''zs'') [] [Some 2, Some 128]"
      and b = "Some 2" and k = 128
      and target_class = "Tensor (Placeholder ''target_class'') [] [Some 2]"
      and gf_dim = 64 and num_classes = 1000 and scope = "''Generator''"
      and vs = "\<lparr>scope_path = [], reuse = ReuseNone\<rparr>" and st = Map.empty]
  by (cases "fst (generator (Tensor (Placeholder ''zs'') [] [Some 2, Some 128])
                (Tensor (Placeholder ''target_class'') [] [Some 2]) 64 1000 ''Generator''
                \<lparr>scope_path = [], reuse = ReuseNone\<rparr> Map.empty)")
     (simp_all add: labels_fit_def fresh_under_def)

lemma block_valid_outcome:
  assumes "get_shape x = [b, Some h, Some w, Some c]"
    and "labels_fit (get_shape labels) b"
    and "0 \<le> out_channels" and "0 \<le> num_classes"
  shows "case fst (block x labels out_channels num_classes name vs st) of
           Inr t \<Rightarrow>
             t = block_graph (scope_path vs @ [name]) x labels (nat out_channels)
                   (nat num_classes) b h w c
         | Inl e \<Rightarrow>
             e = Framework VariableStore \<and>
             (reuse vs = ReuseTrue \<or> \<not> fresh_under (scope_path vs @ [name]) st)"
proof -
  have out: "outcome_at (scope_path vs) (block x labels out_channels num_classes name)
     (\<lambda>t. \<exists>b h w c. get_shape x = [b, Some h, Some w, Some c] \<and>
        0 \<le> out_channels \<and> 0 \<le> num_classes \<and> labels_fit (get_shape labels) b \<and>
        t = block_graph (scope_path vs @ [name]) x labels (nat out_channels) (nat num_classes) b h w c)
     (\<lambda>e. e = Framework VariableStore)"
    by (rule block_outcome) (use assms in auto)
  obtain r st' where run: "block x labels out_channels num_classes name vs st = (r, st')"
    by (cases "block x labels out_channels num_classes name vs st")
  show ?thesis
  proof (cases r)
    case (Inr t)
    then show ?thesis using outcome_at_InrD[OF out refl] run assms(1) by auto
  next
    case (Inl e)
    then have "e = Framework VariableStore"
      using outcome_at_InlD[OF out refl] run by blast
    moreover have "reuse vs = ReuseTrue \<or> \<not> fresh_under (scope_path vs @ [name]) st"
    proof (rule ccontr)
      assume "\<not> (reuse vs = ReuseTrue \<or> \<not> fresh_under (scope_path vs @ [name]) st)"
      then have "fst (block x labels out_channels num_classes name vs st)
          \<noteq> Inl (Framework VariableStore)"
        by (intro block_fresh) simp_all
      then show False using run Inl calculation by simp
    qed
    ultimately show ?thesis using run Inl by simp
  qed
qed

lemma block_example:
  "fst (block (Tensor (Placeholder ''x'') [] [Some 2, Some 4, Some 4, Some 1024])
          (Tensor (Placeholder ''target_class'') [] [Some 2]) 512 1000 ''g_block1''
          \<lparr>scope_path = [], reuse = ReuseNone\<rparr> Map.empty)
   = Inr (block_graph [''g_block1''] (Tensor (Placeholder ''x'') [] [Some 2, Some 4, Some 4, Some 1024])
          (Tensor (Placeholder ''target_class'') [] [Some 2]) 512 1000 (Some 2) 4 4 1024)"
  using block_valid_outcome[where x = "Tensor (Placeholder ''x'') [] [Some 2, Some 4, Some 4, Some 1024]"
      and b = "Some 2" and h = 4 and w = 4 and c = 1024
      and labels = "Tensor (Placeholder ''target_class'') [] [Some 2]"
      and out_channels = 512 and num_classes = 1000 and name = "''g_block1''"
      and vs = "\<lparr>scope_path = [], reuse = ReuseNone\<rparr>" and st = Map.empty]
  by (cases "fst (block (Tensor (Placeholder ''x'') [] [Some 2, Some 4, Some 4, Some 1024])
          (Tensor (Placeholder ''target_class'') [] [Some 2]) 512 1000 ''g_block1''
          \<lparr>scope_path = [], reuse = ReuseNone\<rparr> Map.empty)")
     (simp_all add: labels_fit_def fresh_under_def)

subsection \<open>Errors of the upsampling helpers\<close>

lemma usample_errors:
  "case usample x of
     Inr t \<Rightarrow> True
   | Inl e \<Rightarrow>
       e = Builtin ValueError \<and> length (get_shape x) \<noteq> 4 \<or>
       e = Builtin TypeError \<and> (\<exists>b h w c. get_shape x = [b, h, w, c] \<and> (h = None \<or> w = None))"
  by (auto simp: usample_def py_mul_def tf_image_resize_nearest_neighbor_def
      split: list.splits option.splits sum.splits)

lemma upscale_errors: "case upscale x n of Inr t \<Rightarrow> True | Inl e \<Rightarrow> from_framework e"
  by (auto simp: upscale_def tf_tile_def tf_batch_to_space_def cropped_def batch_blocks_def
      from_framework_def split: sum.splits list.splits option.splits prod.splits if_splits)

subsection \<open>Operations of the graphs\<close>






subsection \<open>The two upsamplings on arrays\<close>














section \<open>Properties\<close>

text \<open>
  C1. For noise \<open>zs\<close> of shape \<open>[B, k]\<close> (the batch size \<open>B\<close> may be statically
  unknown), labels that fit the batch, a positive \<open>gf_dim\<close> and a non-negative
  \<open>num_classes\<close>, the tensor that \<open>generator\<close> returns has shape
  \<open>[B, 128, 128, 3]\<close>: the projected and reshaped latent \<open>act0\<close> is \<open>4 \<times> 4\<close>, each
  of the five blocks doubles height and width (8, 16, 32, 64, 128), and the final
  convolution has 3 channels. The call returns unless the variable store rejects a
  variable, which it does not when it holds no variable under the generator's scope.
\<close>

theorem generator_output_shape:
  assumes "get_shape zs = [b, Some k]" and "labels_fit (get_shape target_class) b"
    and "0 < gf_dim" and "0 \<le> num_classes"
  shows "case fst (generator zs target_class gf_dim num_classes scope vs st) of
           Inr out \<Rightarrow>
             get_shape out = [b, Some 128, Some 128, Some 3] \<and>
             (\<exists>act0 act1 act2 act3 act4 act5.
                reshaped_from act0 (arg act0) \<and> projected (arg act0) zs \<and>
                residual_upsampling_block act1 act0 \<and> residual_upsampling_block act2 act1 \<and>
                residual_upsampling_block act3 act2 \<and> residual_upsampling_block act4 act3 \<and>
                residual_upsampling_block act5 act4 \<and>
                arg (arg (arg (arg out))) = act5 \<and>
                get_shape (arg out) = [b, Some 128, Some 128, Some 3] \<and>
                map get_shape [act0, act1, act2, act3, act4, act5] =
                  [[b, Some 4, Some 4, Some (16 * nat gf_dim)],
                   [b, Some 8, Some 8, Some (16 * nat gf_dim)],
                   [b, Some 16, Some 16, Some (8 * nat gf_dim)],
                   [b, Some 32, Some 32, Some (4 * nat gf_dim)],
                   [b, Some 64, Some 64, Some (2 * nat gf_dim)],
                   [b, Some 128, Some 128, Some (nat gf_dim)]])
         | Inl e \<Rightarrow>
             e = Framework VariableStore \<and> \<not> fresh_under (scope_path vs @ [scope]) st"
proof (cases "fst (generator zs target_class gf_dim num_classes scope vs st)")
  case (Inl e)
  then show ?thesis using generator_valid_outcome[OF assms, where scope = scope and vs = vs and st = st] by simp
next
  case (Inr out)
  then have out: "out = generator_graph (scope_path vs @ [scope]) zs target_class gf_dim
                     (nat num_classes) b k"
    using generator_valid_outcome[OF assms, where scope = scope and vs = vs and st = st] by simp
  obtain act0 act1 act2 act3 act4 act5 n act6 where
    c: "out = tf_nn_tanh act6" "convolved 3 3 act6 (tf_nn_relu n)" "batch_normalized n act5"
      "get_shape out = [b, Some 128, Some 128, Some 3]"
      "get_shape act6 = [b, Some 128, Some 128, Some 3]"
      "residual_upsampling_block act5 act4" "residual_upsampling_block act4 act3"
      "residual_upsampling_block act3 act2" "residual_upsampling_block act2 act1"
      "residual_upsampling_block act1 act0"
      "reshaped_from act0 (arg act0)" "projected (arg act0) zs"
      "map get_shape [act0, act1, act2, act3, act4, act5] =
         [[b, Some 4, Some 4, Some (16 * nat gf_dim)], [b, Some 8, Some 8, Some (16 * nat gf_dim)],
          [b, Some 16, Some 16, Some (8 * nat gf_dim)], [b, Some 32, Some 32, Some (4 * nat gf_dim)],
          [b, Some 64, Some 64, Some (2 * nat gf_dim)], [b, Some 128, Some 128, Some (nat gf_dim)]]"
    unfolding out
    by (rule generator_graph_chain[of "scope_path vs @ [scope]" zs target_class gf_dim
        "nat num_classes" b k])
  have a: "arg out = act6" "arg (arg (arg (arg out))) = act5"
    using c(1) convolved_arg[OF c(2)] batch_normalized_arg[OF c(3)] by (simp_all add: arg_simps)
  have "\<exists>act0 act1 act2 act3 act4 act5.
                reshaped_from act0 (arg act0) \<and> projected (arg act0) zs \<and>
                residual_upsampling_block act1 act0 \<and> residual_upsampling_block act2 act1 \<and>
                residual_upsampling_block act3 act2 \<and> residual_upsampling_block act4 act3 \<and>
                residual_upsampling_block act5 act4 \<and>
                arg (arg (arg (arg out))) = act5 \<and>
                get_shape (arg out) = [b, Some 128, Some 128, Some 3] \<and>
                map get_shape [act0, act1, act2, act3, act4, act5] =
                  [[b, Some 4, Some 4, Some (16 * nat gf_dim)],
                   [b, Some 8, Some 8, Some (16 * nat gf_dim)],
                   [b, Some 16, Some 16, Some (8 * nat gf_dim)],
                   [b, Some 32, Some 32, Some (4 * nat gf_dim)],
                   [b, Some 64, Some 64, Some (2 * nat gf_dim)],
                   [b, Some 128, Some 128, Some (nat gf_dim)]]"
    apply (rule exI[where x = act0], rule exI[where x = act1], rule exI[where x = act2])
    apply (rule exI[where x = act3], rule exI[where x = act4], rule exI[where x = act5])
    using c a by simp
  then show ?thesis using Inr c(4) by simp
qed

theorem generator_output_shape_witness:
  "get_shape (Tensor (Placeholder ''zs'') [] [Some 2, Some 128]) = [Some 2, Some 128] \<and>
   labels_fit (get_shape (Tensor (Placeholder ''target_class'') [] [Some 2])) (Some 2) \<and>
   (0::int) < 64 \<and> (0::int) \<le> 1000 \<and>
   (\<exists>out. fst (generator (Tensor (Placeholder ''zs'') [] [Some 2, Some 128])
                (Tensor (Placeholder ''target_class'') [] [Some 2]) 64 1000 ''Generator''
                \<lparr>scope_path = [], reuse = ReuseNone\<rparr> Map.empty) = Inr out \<and>
          get_shape out = [Some 2, Some 128, Some 128, Some 3])"
  using generator_output_shape[where zs = "Tensor (Placeholder ''zs'') [] [Some 2, Some 128]"
      and b = "Some 2" and k = 128
      and target_class = "Tensor (Placeholder ''target_class'') [] [Some 2]"
      and gf_dim = 64 and num_classes = 1000 and scope = "''Generator''"
      and vs = "\<lparr>scope_path = [], reuse = ReuseNone\<rparr>" and st = Map.empty]
  by (cases "fst (generator (Tensor (Placeholder ''zs'') [] [Some 2, Some 128])
                (Tensor (Placeholder ''target_class'') [] [Some 2]) 64 1000 ''Generator''
                \<lparr>scope_path = [], reuse = ReuseNone\<rparr> Map.empty)")
     (simp_all add: labels_fit_def fresh_under_def)

text \<open>
  C2. The tensor that \<open>generator\<close> returns is \<open>tanh\<close> of a final 3x3 convolution of
  the rectified batch normalization of \<open>act5\<close>, where \<open>act5\<close> is reached from the
  noise \<open>zs\<close> by a linear projection \<open>h0\<close>, a reshape \<open>act0\<close> and exactly five
  residual upsampling blocks in sequence, each the sum of a main path and a shortcut
  path that are both upsampled by 2.
\<close>

theorem generator_structure:
  assumes "fst (generator zs target_class gf_dim num_classes scope vs st) = Inr out"
  shows "\<exists>h0 act0 act1 act2 act3 act4 act5 n act6.
     projected h0 zs \<and> reshaped_from act0 h0 \<and>
     residual_upsampling_block act1 act0 \<and> residual_upsampling_block act2 act1 \<and>
     residual_upsampling_block act3 act2 \<and> residual_upsampling_block act4 act3 \<and>
     residual_upsampling_block act5 act4 \<and>
     batch_normalized n act5 \<and> convolved 3 3 act6 (tf_nn_relu n) \<and> out = tf_nn_tanh act6"
proof -
  obtain b k where out: "out = generator_graph (scope_path vs @ [scope]) zs target_class gf_dim
      (nat num_classes) b k"
    using generator_built_fst[OF assms] by blast
  obtain act0 act1 act2 act3 act4 act5 n act6 where
    "out = tf_nn_tanh act6" "convolved 3 3 act6 (tf_nn_relu n)" "batch_normalized n act5"
    "residual_upsampling_block act5 act4" "residual_upsampling_block act4 act3"
    "residual_upsampling_block act3 act2" "residual_upsampling_block act2 act1"
    "residual_upsampling_block act1 act0"
    "reshaped_from act0 (arg act0)" "projected (arg act0) zs"
    unfolding out
    by (rule generator_graph_chain[of "scope_path vs @ [scope]" zs target_class gf_dim
        "nat num_classes" b k])
  then show ?thesis
    apply -
    apply (rule exI[where x = "arg act0"], rule exI[where x = act0], rule exI[where x = act1])
    apply (rule exI[where x = act2], rule exI[where x = act3], rule exI[where x = act4])
    apply (rule exI[where x = act5], rule exI[where x = n], rule exI[where x = act6])
    apply simp
    done
qed

theorem generator_structure_witness:
  "fst (generator (Tensor (Placeholder ''zs'') [] [Some 2, Some 128])
          (Tensor (Placeholder ''target_class'') [] [Some 2]) 64 1000 ''Generator''
          \<lparr>scope_path = [], reuse = ReuseNone\<rparr> Map.empty)
   = Inr (generator_graph [''Generator''] (Tensor (Placeholder ''zs'') [] [Some 2, Some 128])
          (Tensor (Placeholder ''target_class'') [] [Some 2]) 64 1000 (Some 2) 128) \<and>
   (\<exists>h0 act0 act1 act2 act3 act4 act5 n act6.
     projected h0 (Tensor (Placeholder ''zs'') [] [Some 2, Some 128]) \<and> reshaped_from act0 h0 \<and>
     residual_upsampling_block act1 act0 \<and> residual_upsampling_block act2 act1 \<and>
     residual_upsampling_block act3 act2 \<and> residual_upsampling_block act4 act3 \<and>
     residual_upsampling_block act5 act4 \<and>
     batch_normalized n act5 \<and> convolved 3 3 act6 (tf_nn_relu n) \<and>
     generator_graph [''Generator''] (Tensor (Placeholder ''zs'') [] [Some 2, Some 128])
          (Tensor (Placeholder ''target_class'') [] [Some 2]) 64 1000 (Some 2) 128
       = tf_nn_tanh act6)"
  using generator_structure[OF generator_example] generator_example by simp

text \<open>
  C3. In the tensor that \<open>block\<close> returns, both normalizations are conditional batch
  norms that read the \<open>labels\<close> argument together with a scale and a shift holding
  one row per class: \<open>cbn_0\<close> normalizes the input before the first convolution and
  \<open>cbn_1\<close> normalizes the first convolution's result before the second. In the tensor
  that \<open>generator\<close> returns, each of the five blocks is such a block on the
  \<open>target_class\<close> passed to \<open>generator\<close>.
\<close>

theorem conditional_normalization:
  "(fst (block x labels out_channels num_classes name vs st) = Inr t \<longrightarrow>
      conditional_block (scope_path vs @ [name]) (nat num_classes) t x labels) \<and>
   (fst (generator zs target_class gf_dim num_classes scope vs st) = Inr out \<longrightarrow>
      (\<exists>act0 act1 act2 act3 act4 act5.
         reshaped_from act0 (arg act0) \<and> projected (arg act0) zs \<and>
         conditional_block (scope_path vs @ [scope, ''g_block1'']) (nat num_classes)
           act1 act0 target_class \<and>
         conditional_block (scope_path vs @ [scope, ''g_block2'']) (nat num_classes)
           act2 act1 target_class \<and>
         conditional_block (scope_path vs @ [scope, ''g_block3'']) (nat num_classes)
           act3 act2 target_class \<and>
         conditional_block (scope_path vs @ [scope, ''g_block4'']) (nat num_classes)
           act4 act3 target_class \<and>
         conditional_block (scope_path vs @ [scope, ''g_block5'']) (nat num_classes)
           act5 act4 target_class \<and>
         arg (arg (arg (arg out))) = act5))"
proof (intro conjI impI)
  assume "fst (block x labels out_channels num_classes name vs st) = Inr t"
  then obtain b h w c where "get_shape x = [b, Some h, Some w, Some c]"
    and "t = block_graph (scope_path vs @ [name]) x labels (nat out_channels) (nat num_classes) b h w c"
    using block_built_fst by blast
  then show "conditional_block (scope_path vs @ [name]) (nat num_classes) t x labels"
    using conditional_block_graph by simp
next
  assume run: "fst (generator zs target_class gf_dim num_classes scope vs st) = Inr out"
  obtain b k where out: "out = generator_graph (scope_path vs @ [scope]) zs target_class gf_dim
      (nat num_classes) b k"
    using generator_built_fst[OF run] by blast
  obtain act0 act1 act2 act3 act4 act5 n act6 where
    c: "out = tf_nn_tanh act6" "convolved 3 3 act6 (tf_nn_relu n)" "batch_normalized n act5"
    and k: "conditional_block ((scope_path vs @ [scope]) @ [''g_block5'']) (nat num_classes) act5 act4 target_class"
    "conditional_block ((scope_path vs @ [scope]) @ [''g_block4'']) (nat num_classes) act4 act3 target_class"
    "conditional_block ((scope_path vs @ [scope]) @ [''g_block3'']) (nat num_classes) act3 act2 target_class"
    "conditional_block ((scope_path vs @ [scope]) @ [''g_block2'']) (nat num_classes) act2 act1 target_class"
    "conditional_block ((scope_path vs @ [scope]) @ [''g_block1'']) (nat num_classes) act1 act0 target_class"
    "reshaped_from act0 (arg act0)" "projected (arg act0) zs"
    unfolding out
    by (rule generator_graph_chain[of "scope_path vs @ [scope]" zs target_class gf_dim
        "nat num_classes" b k])
  have a: "arg (arg (arg (arg out))) = act5"
    using c(1) convolved_arg[OF c(2)] batch_normalized_arg[OF c(3)] by (simp add: arg_simps)
  show "\<exists>act0 act1 act2 act3 act4 act5.
         reshaped_from act0 (arg act0) \<and> projected (arg act0) zs \<and>
         conditional_block (scope_path vs @ [scope, ''g_block1'']) (nat num_classes)
           act1 act0 target_class \<and>
         conditional_block (scope_path vs @ [scope, ''g_block2'']) (nat num_classes)
           act2 act1 target_class \<and>
         conditional_block (scope_path vs @ [scope, ''g_block3'']) (nat num_classes)
           act3 act2 target_class \<and>
         conditional_block (scope_path vs @ [scope, ''g_block4'']) (nat num_classes)
           act4 act3 target_class \<and>
         conditional_block (scope_path vs @ [scope, ''g_block5'']) (nat num_classes)
           act5 act4 target_class \<and>
         arg (arg (arg (arg out))) = act5"
    apply (rule exI[where x = act0], rule exI[where x = act1], rule exI[where x = act2])
    apply (rule exI[where x = act3], rule exI[where x = act4], rule exI[where x = act5])
    using k a by simp
qed

theorem conditional_normalization_witness:
  "fst (block (Tensor (Placeholder ''x'') [] [Some 2, Some 4, Some 4, Some 1024])
          (Tensor (Placeholder ''target_class'') [] [Some 2]) 512 1000 ''g_block1''
          \<lparr>scope_path = [], reuse = ReuseNone\<rparr> Map.empty)
   = Inr (block_graph [''g_block1''] (Tensor (Placeholder ''x'') [] [Some 2, Some 4, Some 4, Some 1024])
          (Tensor (Placeholder ''target_class'') [] [Some 2]) 512 1000 (Some 2) 4 4 1024) \<and>
   conditional_block [''g_block1''] 1000
     (block_graph [''g_block1''] (Tensor (Placeholder ''x'') [] [Some 2, Some 4, Some 4, Some 1024])
          (Tensor (Placeholder ''target_class'') [] [Some 2]) 512 1000 (Some 2) 4 4 1024)
     (Tensor (Placeholder ''x'') [] [Some 2, Some 4, Some 4, Some 1024])
     (Tensor (Placeholder ''target_class'') [] [Some 2]) \<and>
   fst (generator (Tensor (Placeholder ''zs'') [] [Some 2, Some 128])
          (Tensor (Placeholder ''target_class'') [] [Some 2]) 64 1000 ''Generator''
          \<lparr>scope_path = [], reuse = ReuseNone\<rparr> Map.empty)
   = Inr (generator_graph [''Generator''] (Tensor (Placeholder ''zs'') [] [Some 2, Some 128])
          (Tensor (Placeholder ''target_class'') [] [Some 2]) 64 1000 (Some 2) 128) \<and>
   (\<exists>act0 act1 act2 act3 act4 act5.
         reshaped_from act0 (arg act0) \<and>
         projected (arg act0) (Tensor (Placeholder ''zs'') [] [Some 2, Some 128]) \<and>
         conditional_block [''Generator'', ''g_block1''] 1000 act1 act0
           (Tensor (Placeholder ''target_class'') [] [Some 2]) \<and>
         conditional_block [''Generator'', ''g_block2''] 1000 act2 act1
           (Tensor (Placeholder ''target_class'') [] [Some 2]) \<and>
         conditional_block [''Generator'', ''g_block3''] 1000 act3 act2
           (Tensor (Placeholder ''target_class'') [] [Some 2]) \<and>
         conditional_block [''Generator'', ''g_block4''] 1000 act4 act3
           (Tensor (Placeholder ''target_class'') [] [Some 2]) \<and>
         conditional_block [''Generator'', ''g_block5''] 1000 act5 act4
           (Tensor (Placeholder ''target_class'') [] [Some 2]) \<and>
         arg (arg (arg (arg (generator_graph [''Generator'']
           (Tensor (Placeholder ''zs'') [] [Some 2, Some 128])
           (Tensor (Placeholder ''target_class'') [] [Some 2]) 64 1000 (Some 2) 128)))) = act5)"
  using conditional_normalization[where x = "Tensor (Placeholder ''x'') [] [Some 2, Some 4, Some 4, Some 1024]"
      and labels = "Tensor (Placeholder ''target_class'') [] [Some 2]"
      and out_channels = 512 and num_classes = 1000 and name = "''g_block1''"
      and vs = "\<lparr>scope_path = [], reuse = ReuseNone\<rparr>" and st = Map.empty
      and zs = "Tensor (Placeholder ''zs'') [] [Some 2, Some 128]"
      and target_class = "Tensor (Placeholder ''target_class'') [] [Some 2]"
      and gf_dim = 64 and scope = "''Generator''"
      and t = "block_graph [''g_block1''] (Tensor (Placeholder ''x'') [] [Some 2, Some 4, Some 4, Some 1024])
          (Tensor (Placeholder ''target_class'') [] [Some 2]) 512 1000 (Some 2) 4 4 1024"
      and out = "generator_graph [''Generator''] (Tensor (Placeholder ''zs'') [] [Some 2, Some 128])
          (Tensor (Placeholder ''target_class'') [] [Some 2]) 64 1000 (Some 2) 128"]
    block_example generator_example
  by simp


text \<open>
  C5, as amended. No function raises an error of the module's own. \<open>upscale\<close>,
  \<open>usample_tpu\<close> and \<open>generator\<close> return a tensor or raise an error that
  originates in a call into the framework or the ops library. \<open>usample\<close> can also
  fail with Python's built-in \<open>ValueError\<close> (unpacking a shape that is not 4D) or
  \<open>TypeError\<close> (\<^verbatim>\<open>nh * 2\<close> on an unknown height or width), raised by its own
  statements, and \<open>block\<close> with that \<open>TypeError\<close> when its 4D input has an
  unknown height or width.
\<close>

theorem module_errors:
  "(case upscale x n of Inr t \<Rightarrow> True | Inl e \<Rightarrow> from_framework e) \<and>
   (case usample_tpu x of Inr t \<Rightarrow> True | Inl e \<Rightarrow> from_framework e) \<and>
   (case usample x of
      Inr t \<Rightarrow> True
    | Inl e \<Rightarrow>
        from_framework e \<or>
        e = Builtin ValueError \<and> length (get_shape x) \<noteq> 4 \<or>
        e = Builtin TypeError \<and>
          (\<exists>b h w c. get_shape x = [b, h, w, c] \<and> (h = None \<or> w = None))) \<and>
   (case fst (block x labels out_channels num_classes name vs st) of
      Inr t \<Rightarrow> True
    | Inl e \<Rightarrow>
        from_framework e \<or>
        e = Builtin TypeError \<and>
          (\<exists>b h w c. get_shape x = [b, h, w, c] \<and> (h = None \<or> w = None))) \<and>
   (case fst (generator zs target_class gf_dim num_classes scope vs st) of
      Inr t \<Rightarrow> True
    | Inl e \<Rightarrow> from_framework e)"
proof (intro conjI)
  show "case upscale x n of Inr t \<Rightarrow> True | Inl e \<Rightarrow> from_framework e"
    by (rule upscale_errors)
  show "case usample_tpu x of Inr t \<Rightarrow> True | Inl e \<Rightarrow> from_framework e"
    unfolding usample_tpu_def by (rule upscale_errors)
  show "case usample x of
      Inr t \<Rightarrow> True
    | Inl e \<Rightarrow>
        from_framework e \<or>
        e = Builtin ValueError \<and> length (get_shape x) \<noteq> 4 \<or>
        e = Builtin TypeError \<and>
          (\<exists>b h w c. get_shape x = [b, h, w, c] \<and> (h = None \<or> w = None))"
    using usample_errors[of x] by (auto split: sum.splits)
  let ?E = "\<lambda>e. from_framework e \<or>
        e = Builtin TypeError \<and>
          (\<exists>b h w c. get_shape x = [b, h, w, c] \<and> (h = None \<or> w = None))"
  have "outcome_at (scope_path vs) (block x labels out_channels num_classes name)
     (\<lambda>t. \<exists>b h w c. get_shape x = [b, Some h, Some w, Some c] \<and>
        0 \<le> out_channels \<and> 0 \<le> num_classes \<and> labels_fit (get_shape labels) b \<and>
        t = block_graph (scope_path vs @ [name]) x labels (nat out_channels) (nat num_classes) b h w c)
     ?E"
    by (rule block_outcome) (simp_all add: from_framework_def)
  then show "case fst (block x labels out_channels num_classes name vs st) of
      Inr t \<Rightarrow> True | Inl e \<Rightarrow> ?E e"
    unfolding outcome_at_def by (auto split: sum.splits)
  have "outcome_at (scope_path vs) (generator zs target_class gf_dim num_classes scope)
     (\<lambda>out. \<exists>b k. get_shape zs = [b, Some k] \<and> labels_fit (get_shape target_class) b \<and>
        0 \<le> gf_dim \<and> (0 < gf_dim \<or> b = None) \<and> 0 \<le> num_classes \<and>
        out = generator_graph (scope_path vs @ [scope]) zs target_class gf_dim (nat num_classes) b k)
     from_framework"
    by (rule generator_outcome) (simp_all add: from_framework_def)
  then show "case fst (generator zs target_class gf_dim num_classes scope vs st) of
      Inr t \<Rightarrow> True | Inl e \<Rightarrow> from_framework e"
    unfolding outcome_at_def by (auto split: sum.splits)
qed

text \<open>
  The claim as stated fails for \<open>usample\<close>: on a 4D tensor of unknown height and on a
  2D tensor the error is Python's own and originates in no framework call.
\<close>

theorem usample_builtin_error:
  "usample (Tensor (Placeholder ''x'') [] [None, None, None, Some 3]) = Inl (Builtin TypeError) \<and>
   usample (Tensor (Placeholder ''x'') [] [Some 8, Some 128]) = Inl (Builtin ValueError) \<and>
   \<not> from_framework (Builtin TypeError) \<and> \<not> from_framework (Builtin ValueError)"
  by (simp add: usample_def py_mul_def from_framework_def)








text \<open>
  C10. \<open>upscale\<close> with scale factor 1 is the identity: the input tensor itself is
  returned, and no node is added to it.
\<close>

theorem upscale_one_identity: "upscale x 1 = Inr x"
  by (simp add: upscale_def)

end
